theory Spec2Isabelle
  imports
    Complex_Main
    "HOL-Library.Word"
    "HOL-Library.Signed_Division"
    "HOL-Library.Log_Nat"
    "HOL-Library.Char_ord"
    "HOL-Library.List_Lexorder"
begin

section \<open>Go primitives used by the evaluator\<close>

subsection \<open>64-bit signed integers\<close>

text \<open>
  Go's \<open>int64\<close> is a 64-bit word read in two's complement. \<open>+\<close>, \<open>-\<close> and \<open>*\<close> wrap
  around. \<open>/\<close> and \<open>%\<close> truncate toward zero, and the most negative value divided by
  \<open>-1\<close> wraps to itself with remainder \<open>0\<close>. A zero divisor raises the run-time panic
  "integer divide by zero"; that check is written where the source divides.
\<close>

type_synonym int64 = "64 word"

definition int64_quo :: "int64 \<Rightarrow> int64 \<Rightarrow> int64" where
  "int64_quo a b = word_of_int (sint a sdiv sint b)"

definition int64_rem :: "int64 \<Rightarrow> int64 \<Rightarrow> int64" where
  "int64_rem a b = word_of_int (sint a smod sint b)"

definition int64_less :: "int64 \<Rightarrow> int64 \<Rightarrow> bool" where
  "int64_less a b \<longleftrightarrow> sint a < sint b"

definition int64_le :: "int64 \<Rightarrow> int64 \<Rightarrow> bool" where
  "int64_le a b \<longleftrightarrow> sint a \<le> sint b"

definition fits_int64 :: "int \<Rightarrow> bool" where
  \<comment> \<open>an exact result that an \<open>int64\<close> holds: the operation does not overflow\<close>
  "fits_int64 k \<longleftrightarrow> - (2 ^ 63) \<le> k \<and> k < 2 ^ 63"

subsection \<open>64-bit floating point\<close>

text \<open>
  Go's \<open>float64\<close> is IEEE 754 binary64. A value is a NaN, an infinity, the negative
  zero, or a finite number, carried here by its exact rational value (\<open>Fin 0\<close> is the
  positive zero). Every arithmetic operation computes the exact result and rounds it to
  the nearest binary64 number, ties to the even significand: 53 significant bits, least
  exponent \<open>-1022\<close> (below it the spacing stays \<open>2^-1074\<close>), overflow to an infinity from
  \<open>2^1024\<close> on.
\<close>

datatype float64 = NaN | PInf | NInf | NZero | Fin rat

definition flog2 :: "rat \<Rightarrow> int" where
  \<comment> \<open>for \<open>r > 0\<close>, the exponent \<open>e\<close> with \<open>2^e \<le> r < 2^(e+1)\<close>\<close>
  "flog2 r = (if 1 \<le> r then bitlen \<lfloor>r\<rfloor> - 1 else - bitlen (\<lceil>1 / r\<rceil> - 1))"

definition round_half_even :: "rat \<Rightarrow> int" where
  "round_half_even x =
     (let f = \<lfloor>x\<rfloor>; d = x - of_int f
      in if d < 1 / 2 then f
         else if 1 / 2 < d then f + 1
         else if even f then f else f + 1)"

definition round64 :: "rat \<Rightarrow> float64" where
  \<comment> \<open>the binary64 number nearest to a non-zero exact result\<close>
  "round64 r =
     (let a = \<bar>r\<bar>;
          e = max (flog2 a) (- 1022);
          q = 2 powi (e - 52);
          m = round_half_even (a / q);
          v = of_int m * q
      in if 2 powi 1024 \<le> v then (if 0 < r then PInf else NInf)
         else if m = 0 then (if 0 < r then Fin 0 else NZero)
         else Fin (if 0 < r then v else - v))"

fun is_finite :: "float64 \<Rightarrow> bool" where
  "is_finite NZero = True"
| "is_finite (Fin r) = True"
| "is_finite x = False"

fun fval :: "float64 \<Rightarrow> rat" where
  "fval (Fin r) = r"
| "fval x = 0"

fun fneg_sign :: "float64 \<Rightarrow> bool" where
  \<comment> \<open>the sign bit of a value that is not a NaN\<close>
  "fneg_sign NInf = True"
| "fneg_sign NZero = True"
| "fneg_sign (Fin r) = (r < 0)"
| "fneg_sign x = False"

definition fzero :: "bool \<Rightarrow> float64" where
  "fzero neg = (if neg then NZero else Fin 0)"

definition finf :: "bool \<Rightarrow> float64" where
  "finf neg = (if neg then NInf else PInf)"

definition math_IsNaN :: "float64 \<Rightarrow> bool" where
  "math_IsNaN x \<longleftrightarrow> x = NaN"

fun fneg :: "float64 \<Rightarrow> float64" where
  "fneg NaN = NaN"
| "fneg PInf = NInf"
| "fneg NInf = PInf"
| "fneg NZero = Fin 0"
| "fneg (Fin r) = (if r = 0 then NZero else Fin (- r))"

definition fadd :: "float64 \<Rightarrow> float64 \<Rightarrow> float64" where
  "fadd x y =
     (if x = NaN \<or> y = NaN then NaN
      else if \<not> is_finite x then (if \<not> is_finite y \<and> x \<noteq> y then NaN else x)
      else if \<not> is_finite y then y
      else let s = fval x + fval y
           in if s = 0 then (if x = NZero \<and> y = NZero then NZero else Fin 0)
              else round64 s)"

definition fsub :: "float64 \<Rightarrow> float64 \<Rightarrow> float64" where
  "fsub x y = fadd x (fneg y)"

definition fmul :: "float64 \<Rightarrow> float64 \<Rightarrow> float64" where
  "fmul x y =
     (if x = NaN \<or> y = NaN then NaN
      else let neg = (fneg_sign x \<noteq> fneg_sign y)
           in if \<not> is_finite x \<or> \<not> is_finite y then
                (if (is_finite x \<and> fval x = 0) \<or> (is_finite y \<and> fval y = 0) then NaN
                 else finf neg)
              else if fval x * fval y = 0 then fzero neg
              else round64 (fval x * fval y))"

definition fdiv :: "float64 \<Rightarrow> float64 \<Rightarrow> float64" where
  "fdiv x y =
     (if x = NaN \<or> y = NaN then NaN
      else let neg = (fneg_sign x \<noteq> fneg_sign y)
           in if \<not> is_finite x then (if \<not> is_finite y then NaN else finf neg)
              else if \<not> is_finite y then fzero neg
              else if fval y = 0 then (if fval x = 0 then NaN else finf neg)
              else if fval x = 0 then fzero neg
              else round64 (fval x / fval y))"

fun flt :: "float64 \<Rightarrow> float64 \<Rightarrow> bool" where
  "flt NaN y = False"
| "flt x NaN = False"
| "flt PInf y = False"
| "flt x PInf = True"
| "flt x NInf = False"
| "flt NInf y = True"
| "flt x y = (fval x < fval y)"

fun feq :: "float64 \<Rightarrow> float64 \<Rightarrow> bool" where
  "feq NaN y = False"
| "feq x NaN = False"
| "feq PInf y = (y = PInf)"
| "feq NInf y = (y = NInf)"
| "feq x PInf = False"
| "feq x NInf = False"
| "feq x y = (fval x = fval y)"

definition fgt :: "float64 \<Rightarrow> float64 \<Rightarrow> bool" where
  "fgt x y = flt y x"

definition fle :: "float64 \<Rightarrow> float64 \<Rightarrow> bool" where
  "fle x y \<longleftrightarrow> flt x y \<or> feq x y"

definition fge :: "float64 \<Rightarrow> float64 \<Rightarrow> bool" where
  "fge x y \<longleftrightarrow> flt y x \<or> feq x y"

definition fne :: "float64 \<Rightarrow> float64 \<Rightarrow> bool" where
  "fne x y \<longleftrightarrow> \<not> feq x y"

definition float64_of_int64 :: "int64 \<Rightarrow> float64" where
  \<comment> \<open>the conversion \<open>float64(i)\<close>: the nearest binary64 number\<close>
  "float64_of_int64 i = (if i = 0 then Fin 0 else round64 (of_int (sint i)))"

definition int64_of_float64 :: "(float64 \<Rightarrow> int64) \<Rightarrow> float64 \<Rightarrow> int64" where
  \<comment> \<open>the conversion \<open>int64(f)\<close>: the fraction is discarded; where the truncated value
      does not fit (and for NaN and the infinities) the language leaves the result to the
      implementation, here the parameter \<open>oor\<close>\<close>
  "int64_of_float64 oor f =
     (if is_finite f then
        (let t = (if 0 \<le> fval f then \<lfloor>fval f\<rfloor> else \<lceil>fval f\<rceil>)
         in if - (2 ^ 63) \<le> t \<and> t < 2 ^ 63 then word_of_int t else oor f)
      else oor f)"

definition exact_float64 :: "int64 \<Rightarrow> bool" where
  \<comment> \<open>the conversion \<open>float64(i)\<close> loses nothing\<close>
  "exact_float64 i \<longleftrightarrow> float64_of_int64 i = Fin (of_int (sint i))"

section \<open>Tokens, errors and values\<close>

text \<open>
  Modelled from the spec: the operator tokens of package \<open>lex\<close> (section 3.2), whose
  declarations are not among the source files. The token types are the ones the
  evaluator names; every other token type is \<open>TokenOther\<close>. A token has its type
  \<open>T\<close> and its text \<open>V\<close>.
\<close>

datatype token_type =
    TokenPlus | TokenStar | TokenMultiply | TokenDivide | TokenMinus | TokenModulus
  | TokenEqualEqual | TokenEqual | TokenNE | TokenGT | TokenLT | TokenGE | TokenLE
  | TokenLogicOr | TokenOr | TokenLogicAnd
  | TokenNegate | TokenExists | TokenBetween | TokenIN | TokenLike
  | TokenOther nat

record token =
  tok_T :: token_type
  tok_V :: string

text \<open>
  Errors are kept by the place that builds them rather than by their formatted text.
  \<open>NotOk\<close> is the error a walker returns where the source writes the literal
  \<open>false\<close> in the error position of its result (see \<open>flag\<close> below).
\<close>

datatype error =
    NotOk
  | ErrConvertNumber string
  | ErrUnknownNode
  | ErrBinaryArgs "error option" "error option"
  | ErrUnsupportedOp token_type
  | ErrUnhandledBoolean token_type string
  | ErrUnsupportedLeft
  | ErrUnsupportedBinary
  | ErrUnknownOperator token_type
  | ErrInvalidLike string
  | ErrUnsupportedStringOp token_type
  | ErrUnknownNodeType
  | ErrUnknownFuncArg
  | ErrExternal string

text \<open>
  Modelled from the spec: the type \<open>value.Value\<close> (section 3.1), a tagged variant
  with the kinds Nil, Error, Bool, Int, Number, String, Time, ByteSlice, StringSlice, Map,
  Struct and Slice. \<open>GoNil\<close> is the nil interface, which the evaluator tells apart from
  \<open>NilValue\<close> in its type switches (\<open>case nil, value.NilValue\<close>).
\<close>

datatype val =
    GoNil
  | NilValue
  | ErrorValue error
  | BoolValue bool
  | IntValue int64
  | NumberValue float64
  | StringValue string
  | TimeValue int
  | ByteSliceValue "8 word list"
  | StringsValue "string list"
  | SliceValue "val list"
  | MapValue "(string \<times> val) list"
  | StructValue

text \<open>
  Modelled from the spec: \<open>Type()\<close>, the kind of a value (\<open>Kind()\<close> in section 3.1).
\<close>

datatype value_type =
    NilType | ErrorType | BoolType | IntType | NumberType | StringType | TimeType
  | ByteSliceType | StringsType | SliceType | MapType | StructType

fun val_Type :: "val \<Rightarrow> value_type option" where
  \<comment> \<open>\<open>v.Type()\<close>; calling it on the nil interface is a nil dereference (\<open>None\<close>)\<close>
  "val_Type GoNil = None"
| "val_Type NilValue = Some NilType"
| "val_Type (ErrorValue e) = Some ErrorType"
| "val_Type (BoolValue b) = Some BoolType"
| "val_Type (IntValue i) = Some IntType"
| "val_Type (NumberValue f) = Some NumberType"
| "val_Type (StringValue s) = Some StringType"
| "val_Type (TimeValue t) = Some TimeType"
| "val_Type (ByteSliceValue bs) = Some ByteSliceType"
| "val_Type (StringsValue ss) = Some StringsType"
| "val_Type (SliceValue vs) = Some SliceType"
| "val_Type (MapValue m) = Some MapType"
| "val_Type StructValue = Some StructType"

text \<open>
  A Go panic is a result of its own. \<open>PanicError\<close> is a panic whose value is an
  \<open>error\<close> (\<open>panic(fmt.Errorf(...))\<close>); \<open>RuntimePanic\<close> is a panic raised by the
  run time, whose value is a \<open>runtime.Error\<close>; \<open>PanicOther\<close> is a panic with any
  other value.
\<close>

datatype runtime_error = IntegerDivideByZero | NilDereference | RuntimeOther string

datatype panic = PanicError error | RuntimePanic runtime_error | PanicOther string

datatype 'a result = Panic panic | Ret 'a

section \<open>The operator tables\<close>

text \<open>\<open>operateInts\<close> (vm.go): two Int operands.\<close>

definition operateInts :: "token \<Rightarrow> int64 \<Rightarrow> int64 \<Rightarrow> val result" where
  "operateInts op a b =
     (case tok_T op of
        TokenPlus \<Rightarrow> Ret (IntValue (a + b))
      | TokenStar \<Rightarrow> Ret (IntValue (a * b))
      | TokenMultiply \<Rightarrow> Ret (IntValue (a * b))
      | TokenMinus \<Rightarrow> Ret (IntValue (a - b))
      | TokenDivide \<Rightarrow>
          (if b = 0 then Panic (RuntimePanic IntegerDivideByZero)
           else Ret (IntValue (int64_quo a b)))
      | TokenModulus \<Rightarrow>
          (if b = 0 then Panic (RuntimePanic IntegerDivideByZero)
           else Ret (IntValue (int64_rem a b)))
      | TokenEqualEqual \<Rightarrow> Ret (BoolValue (a = b))
      | TokenGT \<Rightarrow> Ret (BoolValue (int64_less b a))
      | TokenNE \<Rightarrow> Ret (BoolValue (a \<noteq> b))
      | TokenLT \<Rightarrow> Ret (BoolValue (int64_less a b))
      | TokenGE \<Rightarrow> Ret (BoolValue (int64_le b a))
      | TokenLE \<Rightarrow> Ret (BoolValue (int64_le a b))
      | TokenLogicOr \<Rightarrow> Ret (BoolValue (a \<noteq> 0 \<or> b \<noteq> 0))
      | TokenOr \<Rightarrow> Ret (BoolValue (a \<noteq> 0 \<or> b \<noteq> 0))
      | TokenLogicAnd \<Rightarrow> Ret (BoolValue (a \<noteq> 0 \<and> b \<noteq> 0))
      | _ \<Rightarrow> Panic (PanicError (ErrUnknownOperator (tok_T op))))"

text \<open>
  \<open>operateNumbers\<close> (vm.go): two Number operands. The arithmetic operators return NaN
  first when either operand is NaN. \<open>%\<close> converts both operands to \<open>int64\<close> and takes
  the integer remainder; \<open>oor\<close> is what the platform's conversion gives outside the
  range of \<open>int64\<close>.
\<close>

definition is_arith :: "token_type \<Rightarrow> bool" where
  "is_arith t \<longleftrightarrow>
     t = TokenPlus \<or> t = TokenStar \<or> t = TokenMultiply \<or> t = TokenDivide \<or>
     t = TokenMinus \<or> t = TokenModulus"

definition operateNumbers ::
  "(float64 \<Rightarrow> int64) \<Rightarrow> token \<Rightarrow> float64 \<Rightarrow> float64 \<Rightarrow> val result" where
  "operateNumbers oor op a b =
     (if is_arith (tok_T op) \<and> (math_IsNaN a \<or> math_IsNaN b) then Ret (NumberValue NaN)
      else
       (case tok_T op of
          TokenPlus \<Rightarrow> Ret (NumberValue (fadd a b))
        | TokenStar \<Rightarrow> Ret (NumberValue (fmul a b))
        | TokenMultiply \<Rightarrow> Ret (NumberValue (fmul a b))
        | TokenMinus \<Rightarrow> Ret (NumberValue (fsub a b))
        | TokenDivide \<Rightarrow> Ret (NumberValue (fdiv a b))
        | TokenModulus \<Rightarrow>
            (let x = int64_of_float64 oor a; y = int64_of_float64 oor b
             in if y = 0 then Panic (RuntimePanic IntegerDivideByZero)
                else Ret (NumberValue (float64_of_int64 (int64_rem x y))))
        | TokenEqualEqual \<Rightarrow> Ret (BoolValue (feq a b))
        | TokenEqual \<Rightarrow> Ret (BoolValue (feq a b))
        | TokenGT \<Rightarrow> Ret (BoolValue (fgt a b))
        | TokenNE \<Rightarrow> Ret (BoolValue (fne a b))
        | TokenLT \<Rightarrow> Ret (BoolValue (flt a b))
        | TokenGE \<Rightarrow> Ret (BoolValue (fge a b))
        | TokenLE \<Rightarrow> Ret (BoolValue (fle a b))
        | TokenLogicOr \<Rightarrow> Ret (BoolValue (fne a (Fin 0) \<or> fne b (Fin 0)))
        | TokenOr \<Rightarrow> Ret (BoolValue (fne a (Fin 0) \<or> fne b (Fin 0)))
        | TokenLogicAnd \<Rightarrow> Ret (BoolValue (fne a (Fin 0) \<and> fne b (Fin 0)))
        | _ \<Rightarrow> Panic (PanicError (ErrUnknownOperator (tok_T op)))))"

text \<open>
  \<open>operateStrings\<close> (vm.go): two String operands. \<open>glob_Match pattern name\<close> is
  \<open>glob.Match\<close> of the package \<open>github.com/mb0/glob\<close>, which returns whether the
  name matches and an error for a malformed pattern. In the \<open>LIKE\<close> branch the source
  builds an error value when the match reports an error, but the statement has no
  \<open>return\<close>: the value is dropped and control goes on to the test of \<open>match\<close>.
\<close>

definition operateStrings ::
  "(string \<Rightarrow> string \<Rightarrow> bool \<times> error option) \<Rightarrow> token \<Rightarrow> string \<Rightarrow> string \<Rightarrow> val" where
  "operateStrings glob_Match op a b =
     (case tok_T op of
        TokenEqualEqual \<Rightarrow> BoolValue (a = b)
      | TokenEqual \<Rightarrow> BoolValue (a = b)
      | TokenNE \<Rightarrow> BoolValue (a \<noteq> b)
      | TokenLike \<Rightarrow>
          (case glob_Match b a of
             (match, err) \<Rightarrow>
               (let dropped = (case err of
                                 Some e \<Rightarrow> [ErrorValue (ErrInvalidLike a)]
                               | None \<Rightarrow> [])
                in BoolValue match))
      | _ \<Rightarrow> ErrorValue (ErrUnsupportedStringOp (tok_T op)))"

section \<open>The expression evaluator (vm.go)\<close>

subsection \<open>What the evaluator takes from outside\<close>

text \<open>
  Functions of the \<open>value\<close> package and of third-party packages that the evaluator
  calls but whose code is not among the source files. They are parameters of the model:
  \<^item> \<open>glob_Match\<close>: \<open>glob.Match(pattern, name)\<close>;
  \<^item> \<open>ToFloat64\<close>: \<open>value.ToFloat64\<close> of a number's text;
  \<^item> \<open>val_Equal\<close>: \<open>value.Equal\<close>;
  \<^item> \<open>val_Nil\<close>: the method \<open>Nil()\<close> of a value that is not the nil interface;
  \<^item> \<open>IsBool\<close>, \<open>BoolStringVal\<close>: \<open>value.IsBool\<close>, \<open>value.BoolStringVal\<close>;
  \<^item> \<open>str_CanCoerce\<close>, \<open>str_NumberValue\<close>: \<open>CanCoerce(int64Rv)\<close> and
    \<open>NumberValue()\<close> of a String value;
  \<^item> \<open>conv_oor\<close>: the platform's \<open>int64(f)\<close> outside the range of \<open>int64\<close>.
\<close>

record extern =
  glob_Match :: "string \<Rightarrow> string \<Rightarrow> bool \<times> error option"
  ToFloat64 :: "string \<Rightarrow> float64 option"
  val_Equal :: "val \<Rightarrow> val \<Rightarrow> bool \<times> error option"
  val_Nil :: "val \<Rightarrow> bool"
  IsBool :: "string \<Rightarrow> bool"
  BoolStringVal :: "string \<Rightarrow> bool"
  str_CanCoerce :: "string \<Rightarrow> bool"
  str_NumberValue :: "string \<Rightarrow> float64"
  conv_oor :: "float64 \<Rightarrow> int64"

subsection \<open>Contexts and nodes\<close>

text \<open>
  Modelled from the spec: a read-context is its method \<open>Get(name)\<close>, which returns a
  value and whether the name was found (section 6.2); an \<open>EvalContext\<close> may be nil
  (\<open>None\<close>).
\<close>

type_synonym reader = "string \<Rightarrow> val \<times> bool"
type_synonym eval_ctx = "reader option"

text \<open>
  A registered function, as \<open>reflect\<close> calls it: it receives the context and the
  evaluated arguments, and returns its first result together with its second result
  when it has one (\<open>len(fnRet) > 1\<close>); the call may panic.
\<close>

type_synonym func = "eval_ctx \<Rightarrow> val list \<Rightarrow> (val \<times> bool option) result"

text \<open>
  Modelled from the spec: the nodes of package \<open>expr\<close> that the evaluator consumes
  (section 3.2), with the fields the evaluator reads.
  \<open>NilNode\<close> is the nil \<open>expr.Node\<close>; \<open>OtherNode\<close> is a node of any other type.
  An identity carries the answer of its methods \<open>IsBooleanIdentity()\<close> and \<open>Bool()\<close>:
  \<open>Some b\<close> for a boolean identity whose \<open>Bool()\<close> is \<open>b\<close>.
\<close>

datatype node =
    NilNode
  | NumberNode (IsInt: bool) (Int64: int64) (IsFloat: bool) (num_Text: string)
  | StringNode string
  | IdentityNode string "bool option"
  | UnaryNode token node
  | BinaryNode token node node
  | TriNode token node node node
  | MultiArgNode token "node list"
  | FuncNode string func "node list"
  | ValueNode val
  | OtherNode

fun is_nil_node :: "node \<Rightarrow> bool" where
  \<comment> \<open>the test \<open>n == nil\<close> of a node\<close>
  "is_nil_node NilNode = True"
| "is_nil_node n = False"

subsection \<open>A bool in the place of an error\<close>

text \<open>
  In this revision \<open>Eval\<close> and every walker are declared to return
  \<open>(value.Value, error)\<close>, while \<open>walkUnary\<close>, \<open>walkTri\<close>, \<open>walkMulti\<close>,
  \<open>walkFunc\<close> and \<open>walkIdentity\<close> still write a bool in the second place
  (\<open>return v, true\<close>, \<open>return v, false\<close>, \<open>return ctx.Get(...)\<close>) and test the
  second result of their callees with \<open>!ok\<close>. The model reads the two conventions as
  one: \<open>true\<close> is the nil error, \<open>false\<close> is the non-nil error \<open>NotOk\<close>, and
  \<open>!ok\<close> holds exactly when the error is not nil.
\<close>

definition flag :: "bool \<Rightarrow> error option" where
  "flag ok = (if ok then None else Some NotOk)"

definition is_ok :: "error option \<Rightarrow> bool" where
  "is_ok e \<longleftrightarrow> e = None"

type_synonym eval_result = "(val \<times> error option) result"

definition ret_value :: "val result \<Rightarrow> eval_result" where
  \<comment> \<open>\<open>n := operate...(...); return n, nil\<close>\<close>
  "ret_value r = (case r of Panic p \<Rightarrow> Panic p | Ret n \<Rightarrow> Ret (n, None))"

subsection \<open>Leaves\<close>

definition numberNodeToValue :: "extern \<Rightarrow> bool \<Rightarrow> int64 \<Rightarrow> bool \<Rightarrow> string \<Rightarrow> val \<times> error option" where
  "numberNodeToValue E isInt i isFloat text =
     (if isInt then (IntValue i, None)
      else if isFloat then
        (case ToFloat64 E text of
           None \<Rightarrow> (NilValue, Some (ErrConvertNumber text))
         | Some fv \<Rightarrow> (NumberValue fv, None))
      else (NilValue, None))"

definition walkIdentity :: "eval_ctx \<Rightarrow> string \<Rightarrow> bool option \<Rightarrow> val \<times> error option" where
  "walkIdentity ctx text boolean =
     (case boolean of
        Some b \<Rightarrow> (BoolValue b, None)
      | None \<Rightarrow>
          (case ctx of
             None \<Rightarrow> (StringValue text, None)
           | Some get \<Rightarrow> (case get text of (v, ok) \<Rightarrow> (v, flag ok))))"

subsection \<open>Binary expressions\<close>

definition is_nil_case :: "val \<Rightarrow> bool" where
  \<comment> \<open>the type-switch case \<open>nil, value.NilValue\<close>\<close>
  "is_nil_case v \<longleftrightarrow> v = GoNil \<or> v = NilValue"

definition binary_bool_bool :: "token \<Rightarrow> bool \<Rightarrow> bool \<Rightarrow> val \<times> error option" where
  "binary_bool_bool op atv btv =
     (case tok_T op of
        TokenLogicAnd \<Rightarrow> (BoolValue (atv \<and> btv), None)
      | TokenLogicOr \<Rightarrow> (BoolValue (atv \<or> btv), None)
      | TokenOr \<Rightarrow> (BoolValue (atv \<or> btv), None)
      | TokenEqualEqual \<Rightarrow> (BoolValue (atv = btv), None)
      | TokenEqual \<Rightarrow> (BoolValue (atv = btv), None)
      | TokenNE \<Rightarrow> (BoolValue (atv \<noteq> btv), None)
      | _ \<Rightarrow> (GoNil, Some ErrUnsupportedBinary))"

definition binary_bool_nil :: "token \<Rightarrow> bool \<Rightarrow> val \<times> error option" where
  "binary_bool_nil op atv =
     (case tok_T op of
        TokenLogicAnd \<Rightarrow> (BoolValue False, None)
      | TokenLogicOr \<Rightarrow> (BoolValue atv, None)
      | TokenOr \<Rightarrow> (BoolValue atv, None)
      | TokenEqualEqual \<Rightarrow> (BoolValue False, None)
      | TokenEqual \<Rightarrow> (BoolValue False, None)
      | TokenNE \<Rightarrow> (BoolValue True, None)
      | _ \<Rightarrow> (GoNil, None))"

definition binary_string_nil :: "extern \<Rightarrow> token \<Rightarrow> string \<Rightarrow> val \<times> error option" where
  "binary_string_nil E op a =
     (case tok_T op of
        TokenEqualEqual \<Rightarrow> (BoolValue (val_Nil E (StringValue a)), None)
      | TokenEqual \<Rightarrow> (BoolValue (val_Nil E (StringValue a)), None)
      | TokenNE \<Rightarrow> (BoolValue (\<not> val_Nil E (StringValue a)), None)
      | _ \<Rightarrow> (GoNil, Some (ErrUnsupportedOp (tok_T op))))"

definition binary_string_bool :: "extern \<Rightarrow> token \<Rightarrow> string \<Rightarrow> bool \<Rightarrow> val \<times> error option" where
  "binary_string_bool E op a b =
     (if IsBool E a then
        (case tok_T op of
           TokenEqualEqual \<Rightarrow> (BoolValue (BoolStringVal E a = b), None)
         | TokenEqual \<Rightarrow> (BoolValue (BoolStringVal E a = b), None)
         | TokenNE \<Rightarrow> (BoolValue (BoolStringVal E a \<noteq> b), None)
         | _ \<Rightarrow> (GoNil, Some (ErrUnsupportedOp (tok_T op))))
      else (GoNil, Some (ErrUnhandledBoolean (tok_T op) a)))"

definition binary_nil_left :: "token \<Rightarrow> val \<Rightarrow> val \<times> error option" where
  "binary_nil_left op br =
     (case tok_T op of
        TokenLogicAnd \<Rightarrow> (BoolValue False, None)
      | TokenLogicOr \<Rightarrow> (case br of BoolValue b \<Rightarrow> (BoolValue b, None) | _ \<Rightarrow> (BoolValue False, None))
      | TokenOr \<Rightarrow> (case br of BoolValue b \<Rightarrow> (BoolValue b, None) | _ \<Rightarrow> (BoolValue False, None))
      | TokenEqualEqual \<Rightarrow> (BoolValue (is_nil_case br), None)
      | TokenEqual \<Rightarrow> (BoolValue (is_nil_case br), None)
      | TokenNE \<Rightarrow> (BoolValue True, None)
      | _ \<Rightarrow> (GoNil, None))"

text \<open>
  \<open>walkBinary\<close> after its two calls of \<open>Eval\<close>: the operands' results are its
  arguments. A branch that only logs falls out of the type switch to the last
  \<open>return nil, fmt.Errorf("unsupported binary expression: ...")\<close>.
  \<open>NumberValue()\<close> of an Int is its conversion to \<open>float64\<close> (the spec's kind-pair
  table, section 4.1.4: "L\<rightarrow>Number").
\<close>

definition walkBinary ::
  "extern \<Rightarrow> token \<Rightarrow> val \<times> error option \<Rightarrow> val \<times> error option \<Rightarrow> eval_result" where
  "walkBinary E op ra rb =
     (case (ra, rb) of ((ar, aerr), (br, berr)) \<Rightarrow>
        if aerr \<noteq> None \<or> berr \<noteq> None then Ret (GoNil, Some (ErrBinaryArgs aerr berr))
        else
         (case ar of
            IntValue a \<Rightarrow>
              (case br of
                 IntValue b \<Rightarrow> ret_value (operateInts op a b)
               | NumberValue b \<Rightarrow>
                   ret_value (operateNumbers (conv_oor E) op (float64_of_int64 a) b)
               | _ \<Rightarrow> Ret (GoNil, Some ErrUnsupportedBinary))
          | NumberValue a \<Rightarrow>
              (case br of
                 IntValue b \<Rightarrow>
                   ret_value (operateNumbers (conv_oor E) op a (float64_of_int64 b))
               | NumberValue b \<Rightarrow> ret_value (operateNumbers (conv_oor E) op a b)
               | _ \<Rightarrow> Ret (GoNil, Some ErrUnsupportedBinary))
          | BoolValue a \<Rightarrow>
              (case br of
                 BoolValue b \<Rightarrow> Ret (binary_bool_bool op a b)
               | GoNil \<Rightarrow> Ret (binary_bool_nil op a)
               | NilValue \<Rightarrow> Ret (binary_bool_nil op a)
               | _ \<Rightarrow> Ret (GoNil, Some ErrUnsupportedBinary))
          | StringValue a \<Rightarrow>
              (case br of
                 StringValue b \<Rightarrow> Ret (operateStrings (glob_Match E) op a b, None)
               | GoNil \<Rightarrow> Ret (binary_string_nil E op a)
               | NilValue \<Rightarrow> Ret (binary_string_nil E op a)
               | BoolValue b \<Rightarrow> Ret (binary_string_bool E op a b)
               | IntValue b \<Rightarrow>
                   (if str_CanCoerce E a
                    then ret_value (operateNumbers (conv_oor E) op (str_NumberValue E a)
                                      (float64_of_int64 b))
                    else Ret (GoNil, Some ErrUnsupportedBinary))
               | NumberValue b \<Rightarrow>
                   (if str_CanCoerce E a
                    then ret_value (operateNumbers (conv_oor E) op (str_NumberValue E a) b)
                    else Ret (GoNil, Some ErrUnsupportedBinary))
               | _ \<Rightarrow> Ret (GoNil, Some ErrUnsupportedBinary))
          | GoNil \<Rightarrow> Ret (binary_nil_left op br)
          | NilValue \<Rightarrow> Ret (binary_nil_left op br)
          | _ \<Rightarrow> Ret (GoNil, Some ErrUnsupportedLeft)))"

subsection \<open>Unary and ternary expressions\<close>

text \<open>
  Modelled from the spec: the interface \<open>value.NumericValue\<close> ("\<open>-x\<close>: requires
  numeric", section 4.1.3) holds of Int and Number values; \<open>Float()\<close> of an Int is its
  conversion to \<open>float64\<close>.
\<close>

fun numeric_Float :: "val \<Rightarrow> float64 option" where
  "numeric_Float (IntValue i) = Some (float64_of_int64 i)"
| "numeric_Float (NumberValue f) = Some f"
| "numeric_Float v = None"

text \<open>\<open>walkUnary\<close> after its call of \<open>Eval\<close>.\<close>

definition walkUnary :: "token \<Rightarrow> val \<times> error option \<Rightarrow> eval_result" where
  "walkUnary op r =
     (case r of (a, err) \<Rightarrow>
        if \<not> is_ok err then
          (if tok_T op = TokenExists then Ret (BoolValue False, None)
           else Ret (a, flag False))
        else
         (case tok_T op of
            TokenNegate \<Rightarrow>
              (case a of
                 BoolValue b \<Rightarrow> Ret (BoolValue (\<not> b), flag True)
               | _ \<Rightarrow> Panic (PanicError ErrUnknownNodeType))
          | TokenMinus \<Rightarrow>
              (case numeric_Float a of
                 Some f \<Rightarrow> Ret (NumberValue (fneg f), flag True)
               | None \<Rightarrow> Ret (NilValue, flag False))
          | TokenExists \<Rightarrow>
              (if is_nil_case a then Ret (BoolValue False, flag True)
               else Ret (BoolValue True, flag True))
          | _ \<Rightarrow> Ret (NilValue, flag False)))"

text \<open>
  \<open>walkTri\<close> after its three calls of \<open>Eval\<close>. \<open>a.Type()\<close> on the nil interface is
  a nil dereference. In the Number branch the source returns \<open>true\<close> in the second place
  when the value is outside the bounds and \<open>false\<close> when it is inside; the Int branch
  returns \<open>true\<close> in both.
\<close>

definition walkTri ::
  "token \<Rightarrow> val \<times> error option \<Rightarrow> val \<times> error option \<Rightarrow> val \<times> error option \<Rightarrow> eval_result" where
  "walkTri op ra rb rc =
     (case (ra, rb, rc) of ((a, aok), (b, bok), (c, cok)) \<Rightarrow>
        if \<not> is_ok aok \<or> \<not> is_ok bok \<or> \<not> is_ok cok then Ret (BoolValue False, flag False)
        else
         (case tok_T op of
            TokenBetween \<Rightarrow>
              (case val_Type a of
                 None \<Rightarrow> Panic (RuntimePanic NilDereference)
               | Some IntType \<Rightarrow>
                   (case (a, b, c) of
                      (IntValue aiv, IntValue biv, IntValue civ) \<Rightarrow>
                        (if int64_less biv aiv \<and> int64_less aiv civ
                         then Ret (BoolValue True, flag True)
                         else Ret (BoolValue False, flag True))
                    | _ \<Rightarrow> Ret (BoolValue False, flag False))
               | Some NumberType \<Rightarrow>
                   (case (a, b, c) of
                      (NumberValue afv, NumberValue bfv, NumberValue cfv) \<Rightarrow>
                        (if fgt afv bfv \<and> flt afv cfv
                         then Ret (BoolValue True, flag False)
                         else Ret (BoolValue False, flag True))
                    | _ \<Rightarrow> Ret (BoolValue False, flag False))
               | Some _ \<Rightarrow> Ret (NilValue, flag False))
          | _ \<Rightarrow> Ret (NilValue, flag False)))"

subsection \<open>\<open>IN\<close> and function calls\<close>

text \<open>
  Modelled from the spec: the interface \<open>value.Slice\<close> ("\<open>ident\<close> resolves to a
  \<open>Slice\<close> value", section 4.1.6) holds of Slice values.
\<close>

fun as_Slice :: "val \<Rightarrow> val list option" where
  "as_Slice (SliceValue vs) = Some vs"
| "as_Slice v = None"

text \<open>The loop of \<open>walkMulti\<close> over the values of a slice.\<close>

fun in_slice :: "extern \<Rightarrow> val \<Rightarrow> val list \<Rightarrow> val \<times> error option" where
  "in_slice E a [] = (BoolValue False, flag True)"
| "in_slice E a (v # vs) =
     (case val_Equal E v a of
        (match, Some err) \<Rightarrow> in_slice E a vs
      | (match, None) \<Rightarrow> (if match then (BoolValue True, flag True) else in_slice E a vs))"

text \<open>
  The part of \<open>walkFunc\<close> after an argument's value \<open>v\<close> is computed: a nil value of
  an identity argument becomes the empty string; any other nil value is passed on as it
  is.
\<close>

definition func_arg_nil :: "node \<Rightarrow> val \<Rightarrow> val" where
  "func_arg_nil a v =
     (if v = GoNil then (case a of IdentityNode t b \<Rightarrow> StringValue [] | _ \<Rightarrow> v) else v)"

definition func_return :: "(val \<times> bool option) result \<Rightarrow> eval_result" where
  \<comment> \<open>the end of \<open>walkFunc\<close>, from the result of \<open>node.F.F.Call(funcArgs)\<close>\<close>
  "func_return r =
     (case r of
        Panic p \<Rightarrow> Panic p
      | Ret (v, Some False) \<Rightarrow> Ret (StringValue [], flag False)
      | Ret (v, _) \<Rightarrow> Ret (v, flag True))"

text \<open>
  \<open>Eval\<close> with the walkers' calls of \<open>Eval\<close> written in place: operands are evaluated
  left to right, and a panic of an operand ends the evaluation. \<open>walkMulti_rest\<close> is
  the last loop of \<open>walkMulti\<close>, \<open>walkFunc_args\<close> the loop of \<open>walkFunc\<close> that
  builds the argument list and \<open>walkFunc_arg\<close> its type switch on one argument.
  Reading \<open>node.Args[0]\<close> of an empty list and calling \<open>NodeType()\<close> on a nil
  node are run-time panics.
\<close>

fun Eval :: "extern \<Rightarrow> eval_ctx \<Rightarrow> node \<Rightarrow> eval_result"
  and walkMulti_rest :: "extern \<Rightarrow> eval_ctx \<Rightarrow> val \<Rightarrow> node list \<Rightarrow> eval_result"
  and walkFunc_arg :: "extern \<Rightarrow> eval_ctx \<Rightarrow> node \<Rightarrow> val result"
  and walkFunc_args :: "extern \<Rightarrow> eval_ctx \<Rightarrow> node list \<Rightarrow> val list result"
where
  "Eval E ctx (NumberNode isInt i isFloat text) = Ret (numberNodeToValue E isInt i isFloat text)"
| "Eval E ctx (BinaryNode op l r) =
     (case Eval E ctx l of
        Panic p \<Rightarrow> Panic p
      | Ret ra \<Rightarrow>
          (case Eval E ctx r of
             Panic p \<Rightarrow> Panic p
           | Ret rb \<Rightarrow> walkBinary E op ra rb))"
| "Eval E ctx (UnaryNode op arg) =
     (case Eval E ctx arg of
        Panic p \<Rightarrow> Panic p
      | Ret r \<Rightarrow> walkUnary op r)"
| "Eval E ctx (TriNode op a b c) =
     (case Eval E ctx a of
        Panic p \<Rightarrow> Panic p
      | Ret ra \<Rightarrow>
          (case Eval E ctx b of
             Panic p \<Rightarrow> Panic p
           | Ret rb \<Rightarrow>
               (case Eval E ctx c of
                  Panic p \<Rightarrow> Panic p
                | Ret rc \<Rightarrow> walkTri op ra rb rc)))"
| "Eval E ctx (MultiArgNode op []) = Panic (RuntimePanic (RuntimeOther ''index out of range''))"
| "Eval E ctx (MultiArgNode op (arg0 # rest)) =
     (case Eval E ctx arg0 of
        Panic p \<Rightarrow> Panic p
      | Ret (a, aok) \<Rightarrow>
          if \<not> is_ok aok then Ret (BoolValue False, flag False)
          else if tok_T op \<noteq> TokenIN then Ret (NilValue, flag False)
          else
           (case rest of
              [NilNode] \<Rightarrow> Panic (RuntimePanic NilDereference)
            | [IdentityNode text boolean] \<Rightarrow>
                (case walkIdentity ctx text boolean of
                   (mval, ok) \<Rightarrow>
                     if \<not> is_ok ok then Ret (BoolValue False, flag True)
                     else
                      (case as_Slice mval of
                         None \<Rightarrow> Ret (BoolValue False, flag False)
                       | Some sval \<Rightarrow> Ret (in_slice E a sval)))
            | _ \<Rightarrow> walkMulti_rest E ctx a rest))"
| "Eval E ctx (FuncNode name F args) =
     (case walkFunc_args E ctx args of
        Panic p \<Rightarrow> Panic p
      | Ret funcArgs \<Rightarrow> func_return (F ctx funcArgs))"
| "Eval E ctx (IdentityNode text boolean) = Ret (walkIdentity ctx text boolean)"
| "Eval E ctx (StringNode text) = Ret (StringValue text, None)"
| "Eval E ctx NilNode = Ret (GoNil, None)"
| "Eval E ctx (ValueNode v) = Ret (GoNil, Some ErrUnknownNode)"
| "Eval E ctx OtherNode = Ret (GoNil, Some ErrUnknownNode)"
| "walkMulti_rest E ctx a [] = Ret (BoolValue False, flag True)"
| "walkMulti_rest E ctx a (arg # rest) =
     (case Eval E ctx arg of
        Panic p \<Rightarrow> Panic p
      | Ret (v, ok) \<Rightarrow>
          if is_ok ok then
            (case val_Equal E a v of
               (eq, err) \<Rightarrow>
                 if eq \<and> err = None then Ret (BoolValue True, flag True)
                 else walkMulti_rest E ctx a rest)
          else walkMulti_rest E ctx a rest)"
| "walkFunc_arg E ctx (StringNode text) = Ret (StringValue text)"
| "walkFunc_arg E ctx (IdentityNode text boolean) =
     (case boolean of
        Some b \<Rightarrow> Ret (BoolValue b)
      | None \<Rightarrow>
          (case ctx of
             None \<Rightarrow> Panic (RuntimePanic NilDereference)
           | Some get \<Rightarrow> (case get text of (v, ok) \<Rightarrow> Ret (if \<not> ok then NilValue else v))))"
| "walkFunc_arg E ctx (NumberNode isInt i isFloat text) =
     Ret (fst (numberNodeToValue E isInt i isFloat text))"
| "walkFunc_arg E ctx (FuncNode name F args) =
     (case Eval E ctx (FuncNode name F args) of
        Panic p \<Rightarrow> Panic p
      | Ret (v, ok) \<Rightarrow> Ret (if \<not> is_ok ok then NilValue else v))"
| "walkFunc_arg E ctx (UnaryNode op arg) =
     (case Eval E ctx (UnaryNode op arg) of
        Panic p \<Rightarrow> Panic p
      | Ret (v, ok) \<Rightarrow> Ret (if \<not> is_ok ok then NilValue else v))"
| "walkFunc_arg E ctx (BinaryNode op l r) =
     (case Eval E ctx (BinaryNode op l r) of
        Panic p \<Rightarrow> Panic p
      | Ret (v, ok) \<Rightarrow> Ret v)"
| "walkFunc_arg E ctx (ValueNode v) = Ret v"
| "walkFunc_arg E ctx NilNode = Panic (PanicError ErrUnknownFuncArg)"
| "walkFunc_arg E ctx (TriNode op a b c) = Panic (PanicError ErrUnknownFuncArg)"
| "walkFunc_arg E ctx (MultiArgNode op args) = Panic (PanicError ErrUnknownFuncArg)"
| "walkFunc_arg E ctx OtherNode = Panic (PanicError ErrUnknownFuncArg)"
| "walkFunc_args E ctx [] = Ret []"
| "walkFunc_args E ctx (a # rest) =
     (case walkFunc_arg E ctx a of
        Panic p \<Rightarrow> Panic p
      | Ret v \<Rightarrow>
          (case walkFunc_args E ctx rest of
             Panic p \<Rightarrow> Panic p
           | Ret vs \<Rightarrow> Ret (func_arg_nil a v # vs)))"

subsection \<open>\<open>Execute\<close> and \<open>errRecover\<close>\<close>

text \<open>
  Modelled from the spec: a column of a select with its output name, its expression and
  its guard (section 3.2; a nil guard is \<open>NilNode\<close>), and a write-context (section
  6.2), kept as the sequence of its \<open>Put\<close> calls, each with the schema information it
  was given (\<open>SchemaInfoEmpty\<close> or a column) and the value written. A function that
  writes returns the sequence together with its result, also when it panics.
\<close>

record column =
  col_As :: string
  col_Expr :: node
  col_Guard :: node

datatype schema_info = SchemaInfoEmpty | ColumnInfo column

type_synonym writer = "(schema_info \<times> val) list"

definition Put :: "writer \<Rightarrow> schema_info \<Rightarrow> val \<Rightarrow> writer" where
  "Put w info v = w @ [(info, v)]"

text \<open>
  \<open>errRecover\<close> runs when \<open>Execute\<close> panics: a \<open>runtime.Error\<close> is raised
  again, any other \<open>error\<close> becomes the error \<open>Execute\<close> returns, and a panic value
  that is not an \<open>error\<close> is raised again.
\<close>

definition errRecover :: "panic \<Rightarrow> error option result" where
  "errRecover e =
     (case e of
        RuntimePanic r \<Rightarrow> Panic (RuntimePanic r)
      | PanicError err \<Rightarrow> Ret (Some err)
      | PanicOther x \<Rightarrow> Panic (PanicOther x))"

definition Execute :: "extern \<Rightarrow> node \<Rightarrow> writer \<Rightarrow> eval_ctx \<Rightarrow> writer \<times> error option result" where
  "Execute E tree_Root writeContext readContext =
     (case Eval E readContext tree_Root of
        Panic p \<Rightarrow> (writeContext, errRecover p)
      | Ret (v, Some err) \<Rightarrow> (writeContext, Ret (Some err))
      | Ret (ErrorValue errv, None) \<Rightarrow> (writeContext, Ret (Some errv))
      | Ret (v, None) \<Rightarrow> (Put writeContext SchemaInfoEmpty v, Ret None))"

section \<open>The SQL row evaluator (sqlvm.go)\<close>

text \<open>
  Modelled from the spec: a select statement with its columns and its WHERE expression
  (section 3.2; no WHERE is \<open>NilNode\<close>).
\<close>

record sql_select =
  Columns :: "column list"
  Where :: node

text \<open>
  The WHERE gate of \<open>EvalSql\<close>, from the result of evaluating \<open>sel.Where\<close>:
  \<open>Some (keep, err)\<close> is what \<open>EvalSql\<close> returns at once, \<open>None\<close> lets it go on
  to the columns.
\<close>

definition where_gate :: "extern \<Rightarrow> val \<times> error option \<Rightarrow> (bool \<times> error option) option" where
  "where_gate E r =
     (case r of (whereValue, err) \<Rightarrow>
        if err \<noteq> None then Some (False, err)
        else
         (case whereValue of
            BoolValue b \<Rightarrow> (if b = False then Some (False, None) else None)
          | GoNil \<Rightarrow> Some (True, None)
          | NilValue \<Rightarrow> Some (True, None)
          | ErrorValue e \<Rightarrow> Some (True, Some e)
          | _ \<Rightarrow> (if val_Nil E whereValue then Some (False, None) else None)))"

text \<open>
  The guard of a column, from the result of evaluating \<open>col.Guard\<close>: whether the loop
  takes \<open>continue\<close>.
\<close>

definition guard_skips :: "extern \<Rightarrow> val \<times> error option \<Rightarrow> bool" where
  "guard_skips E r =
     (case r of (ifColValue, err) \<Rightarrow>
        if err \<noteq> None then True
        else
         (case ifColValue of
            BoolValue b \<Rightarrow> (b = False)
          | GoNil \<Rightarrow> True
          | NilValue \<Rightarrow> True
          | ErrorValue e \<Rightarrow> True
          | _ \<Rightarrow> val_Nil E ifColValue))"

text \<open>The loop of \<open>EvalSql\<close> over \<open>sel.Columns\<close>.\<close>

fun evalColumns ::
  "extern \<Rightarrow> column list \<Rightarrow> writer \<Rightarrow> eval_ctx \<Rightarrow> writer \<times> (bool \<times> error option) result" where
  "evalColumns E [] w ctx = (w, Ret (True, None))"
| "evalColumns E (col # cols) w ctx =
     (case (if \<not> is_nil_node (col_Guard col) then Eval E ctx (col_Guard col)
            else Ret (BoolValue True, None)) of
        Panic p \<Rightarrow> (w, Panic p)
      | Ret g \<Rightarrow>
          if \<not> is_nil_node (col_Guard col) \<and> guard_skips E g then evalColumns E cols w ctx
          else
           (case Eval E ctx (col_Expr col) of
              Panic p \<Rightarrow> (w, Panic p)
            | Ret (v, Some err) \<Rightarrow> (w, Ret (False, Some err))
            | Ret (v, None) \<Rightarrow> evalColumns E cols (Put w (ColumnInfo col) v) ctx))"

definition EvalSql ::
  "extern \<Rightarrow> sql_select \<Rightarrow> writer \<Rightarrow> eval_ctx \<Rightarrow> writer \<times> (bool \<times> error option) result" where
  "EvalSql E sel writeContext readContext =
     (if \<not> is_nil_node (Where sel) then
        (case Eval E readContext (Where sel) of
           Panic p \<Rightarrow> (writeContext, Panic p)
         | Ret r \<Rightarrow>
             (case where_gate E r of
                Some out \<Rightarrow> (writeContext, Ret out)
              | None \<Rightarrow> evalColumns E (Columns sel) writeContext readContext))
      else evalColumns E (Columns sel) writeContext readContext)"

section \<open>The schema registry (package \<open>schema\<close>)\<close>

text \<open>
  The catalog as far as \<open>AddTableName\<close> reads and writes it. A table map may hold a
  name with a nil table (\<open>Some None\<close>). A schema points to the source schema that owns
  a table; the model keeps the owner's name. \<open>Conf\<close> and \<open>Schema\<close> are pointers
  and may be nil.
\<close>

record table =
  tbl_Name :: string
  tbl_NameOriginal :: string

record source_config =
  conf_Name :: string
  SourceType :: string
  TablesToLoad :: "string list"

record schema =
  schema_Name :: string
  tableSources :: "string \<rightharpoonup> string"
  schema_tableMap :: "string \<rightharpoonup> table option"
  schema_tableNames :: "string list"

record source_schema =
  ss_Name :: string
  ss_Conf :: "source_config option"
  ss_Schema :: "schema option"
  ss_tableMap :: "string \<rightharpoonup> table option"
  ss_tableNames :: "string list"

text \<open>\<open>sort.Strings\<close> orders strings byte by byte.\<close>

definition sort_Strings :: "string list \<Rightarrow> string list" where
  "sort_Strings xs = sort xs"

definition Schema_AddTableName :: "schema \<Rightarrow> string \<Rightarrow> string \<Rightarrow> schema" where
  "Schema_AddTableName m tableName ss =
     (let found = list_ex (\<lambda>curTableName. tableName = curTableName) (schema_tableNames m)
      in if \<not> found then
           (let m1 = m\<lparr>schema_tableNames := sort_Strings (schema_tableNames m @ [tableName])\<rparr>
            in case schema_tableMap m1 tableName of
                 None \<Rightarrow> m1\<lparr>tableSources := (tableSources m1)(tableName \<mapsto> ss),
                             schema_tableMap := (schema_tableMap m1)(tableName \<mapsto> None)\<rparr>
               | Some t \<Rightarrow> m1)
         else m)"

text \<open>
  \<open>SourceSchema.AddTableName\<close>; \<open>toLower\<close> is \<open>strings.ToLower\<close>. The source
  assigns \<open>lowerTable := tableName\<close> and compares the lowered entries of
  \<open>TablesToLoad\<close> with it.
\<close>

definition SourceSchema_AddTableName ::
  "(string \<Rightarrow> string) \<Rightarrow> source_schema \<Rightarrow> string \<Rightarrow> source_schema result" where
  "SourceSchema_AddTableName toLower m tableName =
     (case ss_Conf m of
        None \<Rightarrow> Panic (RuntimePanic NilDereference)
      | Some conf \<Rightarrow>
          (let lowerTable = tableName;
               loadTable = list_ex (\<lambda>tblToLoad. toLower tblToLoad = lowerTable) (TablesToLoad conf)
           in if length (TablesToLoad conf) > 0 \<and> \<not> loadTable then Ret m
              else
               (let found = list_ex (\<lambda>curTableName. tableName = curTableName) (ss_tableNames m)
                in if \<not> found then
                     Ret (m\<lparr>ss_tableNames := sort_Strings (ss_tableNames m @ [tableName]),
                            ss_Schema :=
                              (case ss_Schema m of
                                 None \<Rightarrow> None
                               | Some s \<Rightarrow> Some (Schema_AddTableName s tableName (ss_Name m))),
                            ss_tableMap :=
                              (case ss_tableMap m tableName of
                                 None \<Rightarrow> (ss_tableMap m)(tableName \<mapsto> None)
                               | Some t \<Rightarrow> ss_tableMap m)\<rparr>)
                   else Ret m)))"

section \<open>Instances for closed examples\<close>

text \<open>
  \<open>strings.ToLower\<close> on ASCII text: the letters \<open>A\<close> to \<open>Z\<close> go to \<open>a\<close> to
  \<open>z\<close>, every other byte stays.
\<close>

fun ascii_lower :: "char \<Rightarrow> char" where
  "ascii_lower (Char b0 b1 b2 b3 b4 b5 b6 b7) =
     (let c = Char b0 b1 b2 b3 b4 b5 b6 b7
      in if 65 \<le> (of_char c :: nat) \<and> (of_char c :: nat) \<le> 90
         then Char b0 b1 b2 b3 b4 True b6 b7 else c)"

definition ascii_ToLower :: "string \<Rightarrow> string" where
  "ascii_ToLower s = map ascii_lower s"

text \<open>
  An instance of the outside functions, used only to evaluate the evaluator on concrete
  inputs: a matcher that reports the pattern \<open>[\<close> as malformed and otherwise compares
  literally, no parsable number text, structural equality of values, \<open>Nil()\<close> true of
  the Nil value alone, the boolean strings \<open>true\<close> and \<open>false\<close>, no string that
  coerces to a number, and the conversion of an out-of-range float to the most negative
  \<open>int64\<close> (what amd64 gives).
\<close>

definition example_extern :: extern where
  "example_extern =
     \<lparr>glob_Match = (\<lambda>p n. if p = ''['' then (False, Some (ErrExternal ''syntax error in pattern''))
                            else (p = n, None)),
      ToFloat64 = (\<lambda>s. None),
      val_Equal = (\<lambda>a b. (a = b, None)),
      val_Nil = (\<lambda>v. v = NilValue),
      IsBool = (\<lambda>s. s = ''true'' \<or> s = ''false''),
      BoolStringVal = (\<lambda>s. s = ''true''),
      str_CanCoerce = (\<lambda>s. False),
      str_NumberValue = (\<lambda>s. NaN),
      conv_oor = (\<lambda>f. - (2 ^ 63))\<rparr>"

text \<open>A source schema whose configuration lists the one table \<open>users\<close>.\<close>

definition users_only :: source_schema where
  "users_only =
     \<lparr>ss_Name = ''csv'',
      ss_Conf = Some \<lparr>conf_Name = ''csv'', SourceType = ''csv'', TablesToLoad = [''users'']\<rparr>,
      ss_Schema = None, ss_tableMap = Map.empty, ss_tableNames = []\<rparr>"

text \<open>An integer literal as the parser builds it, and a row that holds the listed names.\<close>

definition int_lit :: "int64 \<Rightarrow> node" where
  "int_lit i = NumberNode True i False []"

definition row_of :: "(string \<times> val) list \<Rightarrow> eval_ctx" where
  "row_of kvs =
     Some (\<lambda>name. case map_of kvs name of Some v \<Rightarrow> (v, True) | None \<Rightarrow> (GoNil, False))"

text \<open>A select of the one column \<open>1 AS n\<close> with a WHERE expression.\<close>

definition one_column :: "node \<Rightarrow> sql_select" where
  "one_column wh =
     \<lparr>Columns = [\<lparr>col_As = ''n'', col_Expr = int_lit 1, col_Guard = NilNode\<rparr>], Where = wh\<rparr>"

text \<open>Three columns: \<open>1 AS a\<close>, \<open>2 AS b IF false\<close> and \<open>3 AS c IF true\<close>.\<close>

definition col_a :: column where
  "col_a = \<lparr>col_As = ''a'', col_Expr = int_lit 1, col_Guard = NilNode\<rparr>"



section \<open>The spec's words, for comparison with the code\<close>

text \<open>
  "\<open>!=\<close> is the negation of \<open>==\<close>" (sections 4.1.4 and 8.1), for two operands that
  evaluated without error: both operators return a Bool, and the one is the negation of
  the other.
\<close>

definition ne_negates_eq :: "extern \<Rightarrow> val \<Rightarrow> val \<Rightarrow> bool" where
  "ne_negates_eq E ar br =
     (case (walkBinary E \<lparr>tok_T = TokenEqualEqual, tok_V = ''==''\<rparr> (ar, None) (br, None),
            walkBinary E \<lparr>tok_T = TokenNE, tok_V = ''!=''\<rparr> (ar, None) (br, None)) of
        (Ret (BoolValue x, None), Ret (BoolValue y, None)) \<Rightarrow> y = (\<not> x)
      | _ \<Rightarrow> False)"

text \<open>
  The spec's relation between the two numeric tables (section 8.1): both return, and the
  Int result converted to \<open>float64\<close> equals (as floats compare) the Number result.
\<close>

definition ints_numbers_agree :: "(float64 \<Rightarrow> int64) \<Rightarrow> token \<Rightarrow> int64 \<Rightarrow> int64 \<Rightarrow> bool" where
  "ints_numbers_agree oor op a b =
     (case (operateInts op a b,
            operateNumbers oor op (float64_of_int64 a) (float64_of_int64 b)) of
        (Ret (IntValue x), Ret (NumberValue y)) \<Rightarrow> feq (float64_of_int64 x) y
      | _ \<Rightarrow> False)"



section \<open>Properties of the primitives\<close>

lemma round_half_even_of_int: "round_half_even (of_int k) = k"
  by (simp add: round_half_even_def)

lemma below_overflow:
  fixes x :: rat
  assumes "x \<le> 2 ^ 53"
  shows "x < 2 powi 1024"
proof -
  have "(2::rat) ^ 53 < 2 ^ 1024" by (rule power_strict_increasing) simp_all
  moreover have "(2::rat) powi 1024 = 2 ^ 1024" by (simp only: power_int_numeral)
  ultimately show ?thesis using assms by linarith
qed

text \<open>A value that is a multiple of its own spacing and below the overflow bound is not
  changed by rounding.\<close>

lemma round64_exact:
  assumes r: "r \<noteq> 0"
    and k: "\<bar>r\<bar> = of_int k * 2 powi (max (flog2 \<bar>r\<bar>) (- 1022) - 52)"
    and ub: "\<bar>r\<bar> < 2 powi 1024"
  shows "round64 r = Fin r"
proof -
  define q :: rat where "q = 2 powi (max (flog2 \<bar>r\<bar>) (- 1022) - 52)"
  have qpos: "0 < q" by (simp add: q_def)
  have a: "\<bar>r\<bar> = of_int k * q" using k by (simp add: q_def)
  then have aq: "\<bar>r\<bar> / q = of_int k" using qpos by simp
  have m: "round_half_even (\<bar>r\<bar> / q) = k" by (simp add: aq round_half_even_of_int)
  have k0: "k \<noteq> 0" using a r by auto
  have v: "of_int k * q = \<bar>r\<bar>" using a by simp
  show ?thesis
    unfolding round64_def Let_def q_def [symmetric] m v
    using ub k0 r by (auto simp: abs_if)
qed

lemma flog2_of_int: "1 \<le> x \<Longrightarrow> flog2 (of_int x) = bitlen x - 1"
  by (simp add: flog2_def)

text \<open>Integers of magnitude up to \<open>2^53\<close> are binary64 numbers.\<close>

lemma round64_of_int:
  assumes n: "n \<noteq> 0" and b: "\<bar>n\<bar> \<le> 2 ^ 53"
  shows "round64 (of_int n) = Fin (of_int n)"
proof -
  define x where "x = \<bar>n\<bar>"
  define e where "e = bitlen x - 1"
  have x1: "1 \<le> x" "0 < x" using n by (auto simp: x_def)
  have xa: "\<bar>of_int n :: rat\<bar> = of_int x" by (simp add: x_def)
  have fl: "flog2 \<bar>of_int n :: rat\<bar> = e"
    using flog2_of_int [OF x1(1)] by (simp add: x_def e_def)
  from bitlen_bounds [OF x1(2)]
  have lo: "2 ^ nat e \<le> x" by (simp add: e_def)
  have e0: "0 \<le> e"
    using x1 bitlen_eq_zero_iff [of x] bitlen_nonneg [of x] by (simp add: e_def)
  have "(2::int) ^ nat e \<le> 2 ^ 53" using lo b by (simp add: x_def)
  then have e53: "nat e \<le> 53" by (rule power_le_imp_le_exp [rotated]) simp
  have mx: "max e (- 1022) = e" using e0 by simp
  have "\<exists>k. (of_int x :: rat) = of_int k * 2 powi (e - 52)"
  proof (cases "e \<le> 52")
    case True
    have one: "(2::rat) powi (52 - e) * 2 powi (e - 52) = 1"
      using power_int_add [of "2::rat" "52 - e" "e - 52"] by simp
    have "(2::rat) ^ nat (52 - e) = 2 powi (52 - e)"
      using True by (simp add: power_int_def)
    then have "(of_int x :: rat) = of_int (x * 2 ^ nat (52 - e)) * 2 powi (e - 52)"
      using one by (simp add: mult.assoc)
    then show ?thesis by blast
  next
    case False
    then have e: "e = 53" using e53 e0 by linarith
    then have "x = 2 ^ 53" using lo b by (simp add: x_def)
    then have "(of_int x :: rat) = of_int (2 ^ 52) * 2 powi (e - 52)"
      by (simp add: e)
    then show ?thesis by blast
  qed
  then obtain k where k: "(of_int x :: rat) = of_int k * 2 powi (e - 52)" by blast
  have "(of_int x :: rat) \<le> of_int (2 ^ 53)"
    using b unfolding x_def by (simp only: of_int_le_iff)
  then have "(of_int x :: rat) \<le> 2 ^ 53" by simp
  then have ub: "\<bar>of_int n :: rat\<bar> < 2 powi 1024"
    unfolding xa by (rule below_overflow)
  show ?thesis
  proof (rule round64_exact)
    show "(of_int n :: rat) \<noteq> 0" using n by simp
    show "\<bar>of_int n :: rat\<bar> = of_int k * 2 powi (max (flog2 \<bar>of_int n\<bar>) (- 1022) - 52)"
      unfolding fl mx using xa k by (rule trans)
    show "\<bar>of_int n :: rat\<bar> < 2 powi 1024" by (rule ub)
  qed
qed

lemma float64_of_int64_exact:
  "\<bar>sint i\<bar> \<le> 2 ^ 53 \<Longrightarrow> float64_of_int64 i = Fin (of_int (sint i))"
  using round64_of_int [of "sint i"]
  by (cases "i = 0") (simp_all add: float64_of_int64_def signed_eq_0_iff)

lemma sint_word_of_int_small:
  "- (2 ^ 63) \<le> k \<Longrightarrow> k < 2 ^ 63 \<Longrightarrow> sint (word_of_int k :: int64) = k"
  by (simp add: sint_sbintrunc' signed_take_bit_int_eq_self)

lemma round64_not_NaN: "round64 r \<noteq> NaN"
  by (simp add: round64_def Let_def)

lemma round64_parts:
  assumes "0 < r" and "max (flog2 r) (- 1022) = e"
    and "round_half_even (r / 2 powi (e - 52)) = m" and "m \<noteq> 0"
    and "of_int m * 2 powi (e - 52) = v" and "v \<le> 2 ^ 53"
  shows "round64 r = Fin v"
proof -
  have "v < 2 powi 1024" using assms(6) by (rule below_overflow)
  then show ?thesis
    using assms(1-5) by (simp add: round64_def Let_def)
qed

lemma round64_tie: "round64 9007199254740993 = Fin 9007199254740992"
proof (rule round64_parts)
  show "(0::rat) < 9007199254740993" by simp
  show "max (flog2 9007199254740993) (- 1022) = 53" by code_simp
  show "round_half_even (9007199254740993 / 2 powi (53 - 52)) = 4503599627370496" by code_simp
  show "(4503599627370496::int) \<noteq> 0" by simp
  show "of_int 4503599627370496 * 2 powi (53 - 52) = (9007199254740992::rat)" by simp
  show "(9007199254740992::rat) \<le> 2 ^ 53" by simp
qed

lemma round64_7_2: "round64 (7 / 2) = Fin (7 / 2)"
proof (rule round64_parts)
  show "(0::rat) < 7 / 2" by simp
  show "max (flog2 (7 / 2)) (- 1022) = 1" by code_simp
  show "round_half_even (7 / 2 / 2 powi (1 - 52)) = 7881299347898368" by code_simp
  show "(7881299347898368::int) \<noteq> 0" by simp
  show "of_int 7881299347898368 * 2 powi (1 - 52) = (7 / 2::rat)" by code_simp
  show "(7 / 2::rat) \<le> 2 ^ 53" by simp
qed

lemma feq_refl: "x \<noteq> NaN \<Longrightarrow> feq x x"
  by (cases x) simp_all

lemma feq_zero_fzero: "feq (Fin 0) (fzero neg)"
  by (simp add: fzero_def)

lemma float64_of_int64_not_NaN: "float64_of_int64 i \<noteq> NaN"
  by (simp add: float64_of_int64_def round64_not_NaN)

lemma feq_not_flt: "feq x y \<Longrightarrow> \<not> flt x y \<and> \<not> flt y x"
  by (cases x; cases y) auto

lemma int64_of_float64_of_int:
  "int64_of_float64 oor (Fin (of_int (sint (a :: int64)))) = a"
proof -
  have "- (2 ^ 63) \<le> sint a" "sint a < 2 ^ 63"
    using sint_ge [of a] sint_lt [of a] by simp_all
  moreover have "word_of_int (sint a) = a" by simp
  ultimately show ?thesis by (simp add: int64_of_float64_def del: of_int_sint)
qed

text \<open>The exponent that \<open>flog2\<close> computes brackets its argument.\<close>

lemma flog2_lower:
  assumes "0 < r"
  shows "2 powi (flog2 r) \<le> r"
proof (cases "1 \<le> r")
  case True
  define x where "x = \<lfloor>r\<rfloor>"
  have x1: "1 \<le> x" using True by (simp add: x_def)
  then have "0 < x" by simp
  from bitlen_bounds [OF this] have lo: "2 ^ nat (bitlen x - 1) \<le> x" by simp
  have e0: "0 \<le> bitlen x - 1"
    using x1 bitlen_eq_zero_iff [of x] bitlen_nonneg [of x] by simp
  have "(2::rat) powi (bitlen x - 1) = of_int (2 ^ nat (bitlen x - 1))"
    using e0 by (simp add: power_int_def)
  also have "\<dots> \<le> of_int x" using lo by (simp only: of_int_le_iff)
  also have "\<dots> \<le> r" by (simp add: x_def)
  finally show ?thesis using True by (simp add: flog2_def x_def)
next
  case False
  define n where "n = \<lceil>1 / r\<rceil> - 1"
  define k where "k = bitlen n"
  have r1: "r < 1" using False by simp
  have "1 < 1 / r" using assms r1 by simp
  then have "1 < \<lceil>1 / r\<rceil>" by (simp add: less_ceiling_iff)
  then have n1: "0 < n" by (simp add: n_def)
  from bitlen_bounds [OF this] have hi: "n < 2 ^ nat k" by (simp add: k_def)
  have k0: "0 \<le> k" by (simp add: k_def bitlen_nonneg)
  have "1 / r \<le> of_int \<lceil>1 / r\<rceil>" by (rule le_of_int_ceiling)
  also have "\<dots> = of_int (n + 1)" by (simp add: n_def)
  also have "\<dots> \<le> of_int (2 ^ nat k)"
  proof -
    have "n + 1 \<le> 2 ^ nat k" using hi by simp
    then show ?thesis by (simp only: of_int_le_iff)
  qed
  also have "\<dots> = 2 ^ nat k" by simp
  finally have "1 / r \<le> 2 ^ nat k" .
  then have "1 \<le> 2 ^ nat k * r" using assms by (simp add: pos_divide_le_eq)
  then have "1 / 2 ^ nat k \<le> r" by (simp add: pos_divide_le_eq mult.commute)
  moreover have "(2::rat) powi (- k) = 1 / 2 ^ nat k"
    using k0 by (simp add: power_int_def field_simps)
  ultimately show ?thesis using False by (simp add: flog2_def n_def k_def)
qed

lemma flog2_upper:
  assumes "0 < r"
  shows "r < 2 powi (flog2 r + 1)"
proof (cases "1 \<le> r")
  case True
  define x where "x = \<lfloor>r\<rfloor>"
  have x1: "1 \<le> x" using True by (simp add: x_def)
  then have "0 < x" by simp
  from bitlen_bounds [OF this] have hi: "x < 2 ^ nat (bitlen x)" by simp
  have e0: "0 \<le> bitlen x" by (simp add: bitlen_nonneg)
  have "r < of_int x + 1" using floor_correct [of r] by (simp add: x_def)
  also have "\<dots> = of_int (x + 1)" by simp
  also have "\<dots> \<le> of_int (2 ^ nat (bitlen x))"
  proof -
    have "x + 1 \<le> 2 ^ nat (bitlen x)" using hi by simp
    then show ?thesis by (simp only: of_int_le_iff)
  qed
  also have "\<dots> = 2 powi (bitlen x)" using e0 by (simp add: power_int_def)
  finally show ?thesis using True by (simp add: flog2_def x_def)
next
  case False
  define n where "n = \<lceil>1 / r\<rceil> - 1"
  define k where "k = bitlen n"
  have r1: "r < 1" using False by simp
  have "1 < 1 / r" using assms r1 by simp
  then have "1 < \<lceil>1 / r\<rceil>" by (simp add: less_ceiling_iff)
  then have n1: "0 < n" by (simp add: n_def)
  from bitlen_bounds [OF this] have lo: "2 ^ nat (k - 1) \<le> n" by (simp add: k_def)
  have k1: "1 \<le> k"
    using n1 bitlen_eq_zero_iff [of n] bitlen_nonneg [of n] by (simp add: k_def)
  have "(2::rat) ^ nat (k - 1) = of_int (2 ^ nat (k - 1))" by simp
  also have "\<dots> \<le> of_int n" using lo by (simp only: of_int_le_iff)
  also have "\<dots> < 1 / r" using ceiling_correct [of "1 / r"] by (simp add: n_def)
  finally have "2 ^ nat (k - 1) < 1 / r" .
  then have "2 ^ nat (k - 1) * r < 1" using assms by (simp add: pos_less_divide_eq)
  then have "r < 1 / 2 ^ nat (k - 1)" by (simp add: pos_less_divide_eq mult.commute)
  moreover have "(2::rat) powi (- k + 1) = 1 / 2 ^ nat (k - 1)"
    using k1 by (simp add: power_int_def field_simps)
  ultimately show ?thesis using False by (simp add: flog2_def n_def k_def)
qed

text \<open>Rounding to the nearest integer moves a value by at most one half.\<close>

lemma round_half_even_near: "\<bar>of_int (round_half_even y) - y\<bar> \<le> 1 / 2"
proof -
  have "of_int \<lfloor>y\<rfloor> \<le> y" "y < of_int \<lfloor>y\<rfloor> + 1" by linarith+
  then show ?thesis by (auto simp: round_half_even_def Let_def)
qed

text \<open>
  A quotient of two integers of magnitude at most \<open>2^53\<close> that is no integer is at
  least \<open>1 / d\<close> away from the integer below it, which is more than half the spacing
  of the binary64 numbers around it: it does not round to that integer.
\<close>

lemma round64_quotient:
  fixes n d :: int
  assumes n0: "0 < n" and d0: "0 < d" and nb: "n \<le> 2 ^ 53" and db: "d \<le> 2 ^ 53"
    and nd: "\<not> d dvd n"
  defines "A \<equiv> (of_int n / of_int d :: rat)"
  defines "e \<equiv> max (flog2 A) (- 1022)"
  defines "m \<equiv> round_half_even (A / 2 powi (e - 52))"
  shows "m \<noteq> 0" and "of_int m * 2 powi (e - 52) \<noteq> (of_int (n div d) :: rat)"
proof -
  define u :: rat where "u = 2 powi (e - 52)"
  have u0: "0 < u" by (simp add: u_def)
  have A0: "0 < A" using n0 d0 by (simp add: A_def)
  have dA: "of_int d * A = of_int n" using d0 by (simp add: A_def)
  have dr: "(of_int d :: rat) \<le> 2 ^ 53"
  proof -
    have "(of_int d :: rat) \<le> of_int (2 ^ 53)" using db by (simp only: of_int_le_iff)
    then show ?thesis by simp
  qed
  have nr: "(of_int n :: rat) \<le> 2 ^ 53"
  proof -
    have "(of_int n :: rat) \<le> of_int (2 ^ 53)" using nb by (simp only: of_int_le_iff)
    then show ?thesis by simp
  qed
  have d0r: "(0::rat) < of_int d" using d0 by simp
  have n1r: "(1::rat) \<le> of_int n" using n0 by (simp add: int_one_le_iff_zero_less)
  \<comment> \<open>the quotient is at least \<open>2^-53\<close>\<close>
  have Alow: "1 / 2 ^ 53 \<le> A"
  proof -
    have "1 / 2 ^ 53 \<le> 1 / (of_int d :: rat)"
      using dr d0r by (simp add: frac_le)
    also have "\<dots> \<le> of_int n / of_int d"
      using n1r d0r by (simp add: divide_right_mono)
    finally show ?thesis by (simp add: A_def)
  qed
  have small: "(2::rat) powi (- 1022) \<le> 1 / 2 ^ 53"
  proof -
    have "(2::rat) powi (- 1022) \<le> 2 powi (- 53)" by (rule power_int_increasing) simp_all
    also have "\<dots> = 1 / 2 ^ 53" by (simp add: power_int_def field_simps)
    finally show ?thesis .
  qed
  have elow: "2 powi e \<le> A"
    using flog2_lower [OF A0] Alow small by (auto simp: e_def max_def)
  have eup: "A < 2 powi (e + 1)"
  proof -
    have "A < 2 powi (flog2 A + 1)" by (rule flog2_upper [OF A0])
    also have "\<dots> \<le> 2 powi (e + 1)" by (rule power_int_increasing) (simp_all add: e_def)
    finally show ?thesis .
  qed
  have ue: "u * 2 ^ 52 = 2 powi e"
    using power_int_add [of "2::rat" "e - 52" 52] by (simp add: u_def)
  have near: "\<bar>of_int m - A / u\<bar> \<le> 1 / 2"
    unfolding m_def u_def by (rule round_half_even_near)
  have scale: "2 ^ 52 \<le> A / u"
  proof -
    have "2 ^ 52 * u \<le> A" using elow ue by (simp add: mult.commute)
    then show ?thesis using u0 by (simp add: pos_le_divide_eq)
  qed
  have "(1::rat) \<le> 2 ^ 52" by simp
  then have "1 \<le> A / u" using scale by (rule order_trans)
  then have mpos: "(0::rat) < of_int m" using near by linarith
  then show m0: "m \<noteq> 0" by auto
  \<comment> \<open>the quotient is no integer\<close>
  have nonint: "A \<noteq> of_int k" for k
  proof
    assume "A = of_int k"
    then have "(of_int n :: rat) = of_int (d * k)" using dA by simp
    then have "n = d * k" by (simp only: of_int_eq_iff)
    then show False using nd by simp
  qed
  show "of_int m * 2 powi (e - 52) \<noteq> (of_int (n div d) :: rat)"
  proof
    assume eq: "of_int m * 2 powi (e - 52) = (of_int (n div d) :: rat)"
    then have mu: "of_int m * u = of_int (n div d)" by (simp add: u_def)
    have Q: "of_int (n div d) = (\<lfloor>A\<rfloor> :: int)"
      by (simp add: A_def floor_divide_of_int_eq)
    show False
    proof (cases "0 \<le> e")
      case False
      then have "e + 1 \<le> 0" by simp
      then have "(2::rat) powi (e + 1) \<le> 2 powi 0" by (intro power_int_increasing) simp_all
      then have "A < 1" using eup by simp
      then have "\<lfloor>A\<rfloor> = 0" using A0 by (simp add: floor_eq_iff)
      then have "n div d = 0" using Q by simp
      then have "of_int m * u = 0" using mu by simp
      then show False using m0 u0 by simp
    next
      case True
      have "(2::rat) powi e = of_int (2 ^ nat e)" using True by (simp add: power_int_def)
      then have "A \<noteq> 2 powi e" using nonint [of "2 ^ nat e"] by simp
      then have strict: "2 powi e < A" using elow by simp
      have "of_int d * 2 powi e < of_int d * A"
        using strict d0r by (simp add: mult_strict_left_mono)
      also have "\<dots> \<le> 2 ^ 53" using dA nr by simp
      finally have dlt: "of_int d * 2 powi e < (2::rat) ^ 53" .
      \<comment> \<open>the remainder is at least \<open>1 / d\<close>\<close>
      have "n mod d \<noteq> 0" using nd by (simp add: dvd_eq_mod_eq_0)
      then have rem1: "1 \<le> n mod d"
        using d0 pos_mod_sign [of d n] by linarith
      have "(of_int n :: rat) = of_int (d * (n div d) + n mod d)"
        by (simp only: mult_div_mod_eq)
      also have "\<dots> = of_int d * of_int (n div d) + of_int (n mod d)"
        by (simp only: of_int_add of_int_mult)
      finally have split: "(of_int n :: rat) = of_int d * of_int (n div d) + of_int (n mod d)" .
      have "(1::rat) \<le> of_int (n mod d)" using rem1 by (simp add: int_one_le_iff_zero_less)
      then have gap: "1 \<le> of_int d * (A - of_int (n div d))"
        using split dA by (simp add: right_diff_distrib)
      \<comment> \<open>rounding moves the quotient by at most half the spacing\<close>
      have "of_int m * u - A = (of_int m - A / u) * u"
        using u0 by (simp add: left_diff_distrib)
      then have "\<bar>of_int m * u - A\<bar> = \<bar>of_int m - A / u\<bar> * \<bar>u\<bar>"
        by (simp only: abs_mult)
      also have "\<dots> = \<bar>of_int m - A / u\<bar> * u" using u0 by simp
      also have "\<dots> \<le> 1 / 2 * u" using near u0 by (intro mult_right_mono) simp_all
      finally have close: "\<bar>of_int m * u - A\<bar> \<le> u / 2" by simp
      then have "\<bar>of_int (n div d) - A\<bar> \<le> u / 2" unfolding mu .
      then have "A - of_int (n div d) \<le> u / 2" by linarith
      then have "of_int d * (A - of_int (n div d)) \<le> of_int d * (u / 2)"
        using d0r by (intro mult_left_mono) simp_all
      then have "1 \<le> of_int d * (u / 2)" using gap by linarith
      then have "2 \<le> of_int d * u" by simp
      then have "2 * 2 ^ 52 \<le> (of_int d * u) * 2 ^ 52"
        by (intro mult_right_mono) simp_all
      then have "2 ^ 53 \<le> of_int d * (u * 2 ^ 52)" by (simp only: mult.assoc) simp
      then show False using dlt unfolding ue by simp
    qed
  qed
qed

lemma sint_fits: "fits_int64 k \<Longrightarrow> sint (word_of_int k :: int64) = k"
  by (simp add: fits_int64_def sint_word_of_int_small)

lemma float64_of_int64_round:
  "float64_of_int64 i = (if sint i = 0 then Fin 0 else round64 (of_int (sint i)))"
  by (simp add: float64_of_int64_def signed_eq_0_iff)

lemma feq_round64_quotient:
  fixes x y :: int
  assumes x0: "x \<noteq> 0" and y0: "y \<noteq> 0" and xb: "\<bar>x\<bar> \<le> 2 ^ 53" and yb: "\<bar>y\<bar> \<le> 2 ^ 53"
    and nd: "\<not> y dvd x"
  shows "\<not> feq (Fin (of_int (x sdiv y))) (round64 (of_int x / of_int y))"
proof -
  define n where "n = \<bar>x\<bar>"
  define d where "d = \<bar>y\<bar>"
  define A :: rat where "A = of_int n / of_int d"
  define e where "e = max (flog2 A) (- 1022)"
  define m where "m = round_half_even (A / 2 powi (e - 52))"
  define v :: rat where "v = of_int m * 2 powi (e - 52)"
  have n0: "0 < n" and d0: "0 < d" using x0 y0 by (simp_all add: n_def d_def)
  have nb: "n \<le> 2 ^ 53" and db: "d \<le> 2 ^ 53" using xb yb by (simp_all add: n_def d_def)
  have ndd: "\<not> d dvd n" using nd by (simp add: n_def d_def)
  from round64_quotient [OF n0 d0 nb db ndd]
  have m0: "m \<noteq> 0" and vq: "v \<noteq> of_int (n div d)"
    by (simp_all add: m_def e_def A_def v_def)
  have absr: "\<bar>of_int x / of_int y :: rat\<bar> = A"
    by (simp add: A_def n_def d_def)
  have q: "x sdiv y = sgn x * sgn y * (n div d)"
    by (simp add: signed_divide_int_def n_def d_def)
  have r: "round64 (of_int x / of_int y) =
             (if 2 powi 1024 \<le> v then (if (0::rat) < of_int x / of_int y then PInf else NInf)
              else Fin (if (0::rat) < of_int x / of_int y then v else - v))"
    using m0 unfolding round64_def Let_def absr
    by (simp add: e_def [symmetric] m_def [symmetric] v_def [symmetric])
  show ?thesis
  proof (cases "(0::rat) < of_int x / of_int y")
    case True
    then have "sgn x * sgn y = 1"
      using x0 y0 by (auto simp: zero_less_divide_iff sgn_if)
    then have "x sdiv y = n div d" using q by simp
    then show ?thesis using True vq by (simp add: r)
  next
    case False
    then have "sgn x * sgn y = - 1"
      using x0 y0 by (auto simp: zero_less_divide_iff sgn_if not_less)
    then have "x sdiv y = - (n div d)" using q by simp
    then show ?thesis using False vq by (simp add: r)
  qed
qed

lemma abs_sdiv_le: "\<bar>(x::int) sdiv y\<bar> \<le> \<bar>x\<bar>"
proof (cases "y = 0")
  case True
  then show ?thesis by (simp add: signed_divide_int_def)
next
  case False
  define k where "k = \<bar>x\<bar> div \<bar>y\<bar>"
  have "k \<le> \<bar>x\<bar> div 1"
    unfolding k_def using False by (intro zdiv_mono2) simp_all
  then have kx: "k \<le> \<bar>x\<bar>" by simp
  have k0: "0 \<le> k"
    unfolding k_def using False by (intro pos_imp_zdiv_nonneg_iff [THEN iffD2]) simp_all
  have "\<bar>sgn x * sgn y * k\<bar> = \<bar>sgn x\<bar> * \<bar>sgn y\<bar> * \<bar>k\<bar>" by (simp only: abs_mult)
  also have "\<dots> \<le> \<bar>x\<bar>" using kx k0 by (simp add: abs_sgn_eq)
  finally show ?thesis by (simp add: signed_divide_int_def k_def)
qed

text \<open>On integers that convert exactly, the float operations round the exact integer
  result, as the conversion of the Int result does.\<close>

lemma float64_of_int64_fits:
  "fits_int64 k \<Longrightarrow>
     float64_of_int64 (word_of_int k) = (if k = 0 then Fin 0 else round64 (of_int k))"
  using sint_fits [of k] float64_of_int64_round [of "word_of_int k"] by simp

lemma fadd_round:
  "fadd (Fin (of_int x)) (Fin (of_int y)) = (if x + y = 0 then Fin 0 else round64 (of_int (x + y)))"
proof -
  have "(of_int x + of_int y = (0::rat)) = (x + y = 0)"
    by (simp only: of_int_add [symmetric] of_int_eq_0_iff)
  then show ?thesis by (simp add: fadd_def)
qed

lemma fsub_round:
  "fsub (Fin (of_int x)) (Fin (of_int y)) = (if x - y = 0 then Fin 0 else round64 (of_int (x - y)))"
proof (cases "y = 0")
  case True
  then show ?thesis by (simp add: fsub_def fadd_def)
next
  case False
  then show ?thesis using fadd_round [of x "- y"] by (simp add: fsub_def)
qed

lemma fmul_round:
  "feq (if x * y = 0 then Fin 0 else round64 (of_int (x * y)))
       (fmul (Fin (of_int x)) (Fin (of_int y)))"
proof (cases "x * y = 0")
  case True
  then have "(of_int x :: rat) * of_int y = 0" by (metis of_int_0 of_int_mult)
  then show ?thesis using True feq_zero_fzero by (simp add: fmul_def Let_def del: mult_eq_0_iff)
next
  case False
  then have nz: "(of_int x :: rat) * of_int y \<noteq> 0" by (metis of_int_0_eq_iff of_int_mult)
  then show ?thesis using False feq_refl [OF round64_not_NaN]
    by (simp add: fmul_def Let_def)
qed

lemma fdiv_round:
  assumes "y \<noteq> 0" and "y dvd x"
  shows "feq (if x div y = 0 then Fin 0 else round64 (of_int (x div y)))
             (fdiv (Fin (of_int x)) (Fin (of_int y)))"
proof (cases "x = 0")
  case True
  then show ?thesis using assms(1) feq_zero_fzero by (simp add: fdiv_def Let_def)
next
  case False
  have q: "(of_int (x div y) :: rat) = of_int x / of_int y"
    using assms(2) by (rule of_int_div)
  have "x div y \<noteq> 0" using False assms(2) by (auto simp: dvd_div_eq_0_iff)
  then show ?thesis using False assms(1) feq_refl [OF round64_not_NaN]
    by (simp add: fdiv_def Let_def q)
qed

lemma feq_float64_refl: "feq (float64_of_int64 i) (float64_of_int64 i)"
  by (rule feq_refl) (rule float64_of_int64_not_NaN)

lemma int64_of_float64_15_2: "int64_of_float64 oor (Fin (15 / 2)) = 7"
proof -
  have "\<lfloor>15 / 2 :: rat\<rfloor> = 7" by code_simp
  then show ?thesis by (simp add: int64_of_float64_def)
qed

lemma int64_of_float64_1_2: "int64_of_float64 oor (Fin (1 / 2)) = 0"
proof -
  have "\<lfloor>1 / 2 :: rat\<rfloor> = 0" by code_simp
  then show ?thesis by (simp add: int64_of_float64_def)
qed

lemma float64_of_int64_1: "float64_of_int64 1 = Fin 1"
  using float64_of_int64_exact [of 1] by simp

section \<open>Properties of the evaluator and the registry\<close>

lemma Eval_int_lit: "Eval E ctx (int_lit i) = Ret (IntValue i, None)"
  by (simp add: int_lit_def numberNodeToValue_def)







text \<open>
  With a non-empty \<open>TablesToLoad\<close>, \<open>SourceSchema.AddTableName\<close> returns, and the name
  is among the table names afterwards exactly when it was there before or equals the
  lowered form of an entry: the entries are lowered, the name is compared as it is.
\<close>

lemma AddTableName_allowlist:
  assumes "ss_Conf m = Some conf" and "TablesToLoad conf \<noteq> []"
  shows "\<exists>m'. SourceSchema_AddTableName toLower m name = Ret m' \<and>
     (name \<in> set (ss_tableNames m') \<longleftrightarrow>
        name \<in> set (ss_tableNames m) \<or> name \<in> toLower ` set (TablesToLoad conf))"
  using assms
  by (auto simp add: SourceSchema_AddTableName_def Let_def list_ex_iff sort_Strings_def)

section \<open>The claims\<close>

text \<open>
  C1 as amended. Let \<open>sel.Where\<close> be non-nil. When it evaluates without error,
  \<open>EvalSql\<close> returns at once, with nothing written: \<open>(false, nil)\<close> for
  \<open>Bool(false)\<close>, whatever the columns are; \<open>(true, nil)\<close> for nil (the nil interface
  or the Nil value); \<open>(true, err)\<close> for an Error value carrying \<open>err\<close>. When the
  evaluation returns an error, \<open>EvalSql\<close> returns \<open>(false, err)\<close>.
\<close>

theorem EvalSql_where_gate:
  assumes "\<not> is_nil_node (Where sel)" and "Eval E ctx (Where sel) = Ret (v, err)"
  shows "(err = None \<and> v = BoolValue False \<longrightarrow> EvalSql E sel w ctx = (w, Ret (False, None)))
       \<and> (err = None \<and> is_nil_case v \<longrightarrow> EvalSql E sel w ctx = (w, Ret (True, None)))
       \<and> (\<forall>e. err = None \<and> v = ErrorValue e \<longrightarrow>
             EvalSql E sel w ctx = (w, Ret (True, Some e)))
       \<and> (\<forall>e. err = Some e \<longrightarrow> EvalSql E sel w ctx = (w, Ret (False, Some e)))"
  using assms
  by (auto simp add: EvalSql_def where_gate_def is_nil_case_def)

theorem EvalSql_where_gate_witness:
  "EvalSql example_extern (one_column (IdentityNode ''false'' (Some False))) [] (row_of [])
     = ([], Ret (False, None))
   \<and> EvalSql example_extern (one_column (IdentityNode ''x'' None)) [] (row_of [(''x'', NilValue)])
     = ([], Ret (True, None))
   \<and> EvalSql example_extern (one_column (IdentityNode ''x'' None)) []
        (row_of [(''x'', ErrorValue NotOk)])
     = ([], Ret (True, Some NotOk))
   \<and> EvalSql example_extern (one_column (IdentityNode ''x'' None)) [] (row_of [])
     = ([], Ret (False, Some NotOk))"
proof -
  have n: "\<not> is_nil_node (Where (one_column (IdentityNode t b)))" for t b
    by (simp add: one_column_def)
  have e1: "Eval example_extern (row_of [])
              (Where (one_column (IdentityNode ''false'' (Some False))))
            = Ret (BoolValue False, None)"
    by (simp add: one_column_def walkIdentity_def)
  have e2: "Eval example_extern (row_of [(''x'', v)]) (Where (one_column (IdentityNode ''x'' None)))
            = Ret (v, None)" for v
    by (simp add: one_column_def walkIdentity_def row_of_def flag_def)
  have e3: "Eval example_extern (row_of []) (Where (one_column (IdentityNode ''x'' None)))
            = Ret (GoNil, Some NotOk)"
    by (simp add: one_column_def walkIdentity_def row_of_def flag_def)
  show ?thesis
    using EvalSql_where_gate [OF n e1, of "[]"] EvalSql_where_gate [OF n e2, of NilValue "[]"]
      EvalSql_where_gate [OF n e2, of "ErrorValue NotOk" "[]"]
      EvalSql_where_gate [OF n e3, of "[]"]
    by (simp add: is_nil_case_def)
qed

text \<open>
  C1 as stated fails for a missing identity: with \<open>WHERE ip\<close> and a row that has no
  \<open>ip\<close>, the lookup reports that the name was not found, the evaluation returns an
  error, and \<open>EvalSql\<close> returns \<open>(false, err)\<close>: the row is not kept.
\<close>

theorem EvalSql_missing_identity_dropped:
  "EvalSql example_extern (one_column (IdentityNode ''ip'' None)) []
      (row_of [(''name'', StringValue ''bob'')])
     = ([], Ret (False, Some NotOk))"
  by (simp add: EvalSql_def one_column_def walkIdentity_def row_of_def flag_def where_gate_def)

text \<open>
  C2. When the three operands of \<open>BETWEEN\<close> evaluate without error to three Ints, the
  result is \<open>Bool(b < a \<and> a < c)\<close>, both inequalities strict, with no error. For three
  Numbers the value is that Bool too, and a value that is not strictly inside the bounds
  (so one equal to a bound) gives \<open>Bool(false)\<close> with no error. But for a Number
  strictly inside the bounds the Number branch of \<open>walkTri\<close> returns \<open>false\<close> in the
  second place, where the Int branch returns \<open>true\<close>: the \<open>Bool(true)\<close> comes with
  a failure, \<open>EvalSql\<close> drops a row whose WHERE it is, and \<open>Execute\<close> writes
  nothing.
\<close>

theorem Eval_between_numbers_not_ok:
  "(Eval E ctx na = Ret (IntValue i, None) \<and> Eval E ctx nb = Ret (IntValue j, None)
      \<and> Eval E ctx nc = Ret (IntValue k, None) \<longrightarrow>
    Eval E ctx (TriNode \<lparr>tok_T = TokenBetween, tok_V = v\<rparr> na nb nc)
      = Ret (BoolValue (sint j < sint i \<and> sint i < sint k), None))
   \<and> (Eval E ctx na = Ret (NumberValue x, None) \<and> Eval E ctx nb = Ret (NumberValue y, None)
      \<and> Eval E ctx nc = Ret (NumberValue z, None) \<longrightarrow>
    Eval E ctx (TriNode \<lparr>tok_T = TokenBetween, tok_V = v\<rparr> na nb nc)
      = (if flt y x \<and> flt x z then Ret (BoolValue True, Some NotOk)
         else Ret (BoolValue False, None))
    \<and> EvalSql E \<lparr>Columns = cols, Where = TriNode \<lparr>tok_T = TokenBetween, tok_V = v\<rparr> na nb nc\<rparr>
         w ctx
      = (w, Ret (False, if flt y x \<and> flt x z then Some NotOk else None))
    \<and> Execute E (TriNode \<lparr>tok_T = TokenBetween, tok_V = v\<rparr> na nb nc) w ctx
      = (if flt y x \<and> flt x z then (w, Ret (Some NotOk))
         else (Put w SchemaInfoEmpty (BoolValue False), Ret None)))
   \<and> (Eval E ctx na = Ret (NumberValue x, None) \<and> Eval E ctx nb = Ret (NumberValue y, None)
      \<and> Eval E ctx nc = Ret (NumberValue z, None) \<and> (feq x y \<or> feq x z) \<longrightarrow>
    Eval E ctx (TriNode \<lparr>tok_T = TokenBetween, tok_V = v\<rparr> na nb nc)
      = Ret (BoolValue False, None))"
  by (auto simp add: walkTri_def is_ok_def int64_less_def fgt_def flag_def EvalSql_def
        where_gate_def Execute_def dest: feq_not_flt)

theorem Eval_between_numbers_not_ok_witness:
  "Eval example_extern (row_of [(''age'', IntValue 42)])
      (TriNode \<lparr>tok_T = TokenBetween, tok_V = ''between''\<rparr>
         (IdentityNode ''age'' None) (int_lit 10) (int_lit 50))
     = Ret (BoolValue True, None)
   \<and> Eval example_extern (row_of [(''age'', IntValue 42)])
      (TriNode \<lparr>tok_T = TokenBetween, tok_V = ''between''\<rparr>
         (IdentityNode ''age'' None) (int_lit 42) (int_lit 50))
     = Ret (BoolValue False, None)
   \<and> Eval example_extern
      (row_of [(''x'', NumberValue (Fin 1)), (''lo'', NumberValue (Fin 1)), (''hi'', NumberValue (Fin 2))])
      (TriNode \<lparr>tok_T = TokenBetween, tok_V = ''between''\<rparr>
         (IdentityNode ''x'' None) (IdentityNode ''lo'' None) (IdentityNode ''hi'' None))
     = Ret (BoolValue False, None)
   \<and> Eval example_extern
      (row_of [(''x'', NumberValue (Fin (3 / 2))), (''lo'', NumberValue (Fin 1)), (''hi'', NumberValue (Fin 2))])
      (TriNode \<lparr>tok_T = TokenBetween, tok_V = ''between''\<rparr>
         (IdentityNode ''x'' None) (IdentityNode ''lo'' None) (IdentityNode ''hi'' None))
     = Ret (BoolValue True, Some NotOk)
   \<and> EvalSql example_extern
      \<lparr>Columns = [col_a],
       Where = TriNode \<lparr>tok_T = TokenBetween, tok_V = ''between''\<rparr>
         (IdentityNode ''x'' None) (IdentityNode ''lo'' None) (IdentityNode ''hi'' None)\<rparr> []
      (row_of [(''x'', NumberValue (Fin (3 / 2))), (''lo'', NumberValue (Fin 1)), (''hi'', NumberValue (Fin 2))])
     = ([], Ret (False, Some NotOk))
   \<and> Execute example_extern
      (TriNode \<lparr>tok_T = TokenBetween, tok_V = ''between''\<rparr>
         (IdentityNode ''x'' None) (IdentityNode ''lo'' None) (IdentityNode ''hi'' None)) []
      (row_of [(''x'', NumberValue (Fin (3 / 2))), (''lo'', NumberValue (Fin 1)), (''hi'', NumberValue (Fin 2))])
     = ([], Ret (Some NotOk))"
proof -
  have age: "Eval example_extern (row_of [(''age'', IntValue 42)]) (IdentityNode ''age'' None)
             = Ret (IntValue 42, None)"
    by (simp add: walkIdentity_def row_of_def flag_def)
  have num: "Eval example_extern
               (row_of [(''x'', NumberValue a), (''lo'', NumberValue b), (''hi'', NumberValue c)])
               (IdentityNode ''x'' None) = Ret (NumberValue a, None)
             \<and> Eval example_extern
               (row_of [(''x'', NumberValue a), (''lo'', NumberValue b), (''hi'', NumberValue c)])
               (IdentityNode ''lo'' None) = Ret (NumberValue b, None)
             \<and> Eval example_extern
               (row_of [(''x'', NumberValue a), (''lo'', NumberValue b), (''hi'', NumberValue c)])
               (IdentityNode ''hi'' None) = Ret (NumberValue c, None)" for a b c
    by (simp add: walkIdentity_def row_of_def flag_def)
  show ?thesis
    using Eval_between_numbers_not_ok [where E = example_extern and ctx = "row_of [(''age'', IntValue 42)]"
        and na = "IdentityNode ''age'' None" and nb = "int_lit 10" and nc = "int_lit 50"
        and i = 42 and j = 10 and k = 50 and v = "''between''"]
      Eval_between_numbers_not_ok [where E = example_extern and ctx = "row_of [(''age'', IntValue 42)]"
        and na = "IdentityNode ''age'' None" and nb = "int_lit 42" and nc = "int_lit 50"
        and i = 42 and j = 42 and k = 50 and v = "''between''"]
      Eval_between_numbers_not_ok [where E = example_extern
        and ctx = "row_of [(''x'', NumberValue (Fin 1)), (''lo'', NumberValue (Fin 1)), (''hi'', NumberValue (Fin 2))]"
        and na = "IdentityNode ''x'' None" and nb = "IdentityNode ''lo'' None"
        and nc = "IdentityNode ''hi'' None"
        and x = "Fin 1" and y = "Fin 1" and z = "Fin 2" and v = "''between''"]
      Eval_between_numbers_not_ok [where E = example_extern
        and ctx = "row_of [(''x'', NumberValue (Fin (3 / 2))), (''lo'', NumberValue (Fin 1)), (''hi'', NumberValue (Fin 2))]"
        and na = "IdentityNode ''x'' None" and nb = "IdentityNode ''lo'' None"
        and nc = "IdentityNode ''hi'' None"
        and x = "Fin (3 / 2)" and y = "Fin 1" and z = "Fin 2" and v = "''between''"
        and cols = "[col_a]" and w = "[]"]
      age num [of "Fin 1" "Fin 1" "Fin 2"] num [of "Fin (3 / 2)" "Fin 1" "Fin 2"]
    by (simp add: Eval_int_lit flag_def del: Eval.simps)
qed

text \<open>
  C3 as amended. When both operands of \<open>/\<close> evaluate to Ints and the divisor is zero,
  the integer division in \<open>operateInts\<close> raises the run-time panic "integer divide by
  zero"; \<open>errRecover\<close> raises run-time errors again, so the panic leaves
  \<open>Vm.Execute\<close>. With a divisor that is not zero \<open>Execute\<close> writes the quotient and
  returns nil.
\<close>

theorem Execute_int_divide:
  assumes "Eval E ctx l = Ret (IntValue a, None)" and "Eval E ctx r = Ret (IntValue b, None)"
  shows "Execute E (BinaryNode \<lparr>tok_T = TokenDivide, tok_V = v\<rparr> l r) w ctx =
     (if b = 0 then (w, Panic (RuntimePanic IntegerDivideByZero))
      else (Put w SchemaInfoEmpty (IntValue (int64_quo a b)), Ret None))"
  using assms
  by (simp add: Execute_def walkBinary_def operateInts_def ret_value_def errRecover_def)

theorem Execute_int_divide_witness:
  "Execute example_extern (BinaryNode \<lparr>tok_T = TokenDivide, tok_V = ''/''\<rparr> (int_lit 7) (int_lit 2))
      [] None = ([(SchemaInfoEmpty, IntValue 3)], Ret None)
   \<and> Execute example_extern (BinaryNode \<lparr>tok_T = TokenDivide, tok_V = ''/''\<rparr> (int_lit 7) (int_lit 0))
      [] None = ([], Panic (RuntimePanic IntegerDivideByZero))"
proof -
  have q: "int64_quo 7 2 = 3" by (simp add: int64_quo_def signed_divide_int_def)
  show ?thesis
    using Execute_int_divide [where l = "int_lit 7" and r = "int_lit 2" and v = "''/''"
        and w = "[]", OF Eval_int_lit Eval_int_lit]
      Execute_int_divide [where l = "int_lit 7" and r = "int_lit 0" and v = "''/''"
        and w = "[]", OF Eval_int_lit Eval_int_lit]
    by (simp add: q Put_def)
qed

text \<open>C3 as stated fails: \<open>1 / 0\<close> panics out of \<open>Execute\<close>.\<close>

theorem Execute_int_divide_by_zero_panics:
  "Execute example_extern (BinaryNode \<lparr>tok_T = TokenDivide, tok_V = ''/''\<rparr> (int_lit 1) (int_lit 0))
      [] None = ([], Panic (RuntimePanic IntegerDivideByZero))"
  by (simp add: Execute_def walkBinary_def operateInts_def ret_value_def errRecover_def
        int_lit_def numberNodeToValue_def)

text \<open>
  C4 as amended. Let \<open>n\<close> be nil (the nil interface or the Nil value). With a Bool or a
  String on the left and \<open>n\<close> on the right, and with \<open>n\<close> on the left and a value
  that is not nil on the right, \<open>!=\<close> returns the negation of the Bool that \<open>==\<close>
  returns; and \<open>nil == nil\<close> is \<open>Bool(true)\<close>. With an Int or a Number on the left
  and \<open>n\<close> on the right every operator is an unsupported binary expression.
\<close>

theorem walkBinary_nil_ne:
  assumes "is_nil_case n"
  shows "ne_negates_eq E (BoolValue b) n
       \<and> ne_negates_eq E (StringValue s) n
       \<and> (\<not> is_nil_case x \<longrightarrow> ne_negates_eq E n x)
       \<and> walkBinary E \<lparr>tok_T = TokenEqualEqual, tok_V = v\<rparr> (n, None) (n, None)
           = Ret (BoolValue True, None)
       \<and> walkBinary E op (IntValue i, None) (n, None) = Ret (GoNil, Some ErrUnsupportedBinary)
       \<and> walkBinary E op (NumberValue f, None) (n, None)
           = Ret (GoNil, Some ErrUnsupportedBinary)"
  using assms
  by (auto simp add: ne_negates_eq_def walkBinary_def is_nil_case_def binary_bool_nil_def
        binary_string_nil_def binary_nil_left_def)

theorem walkBinary_nil_ne_witness:
  "ne_negates_eq example_extern (BoolValue True) NilValue
   \<and> ne_negates_eq example_extern (StringValue ''bob'') GoNil
   \<and> ne_negates_eq example_extern NilValue (StringValue ''bob'')
   \<and> walkBinary example_extern \<lparr>tok_T = TokenEqualEqual, tok_V = ''==''\<rparr>
        (NilValue, None) (NilValue, None) = Ret (BoolValue True, None)"
proof -
  have n: "is_nil_case NilValue" "is_nil_case GoNil" "\<not> is_nil_case (StringValue ''bob'')"
    by (simp_all add: is_nil_case_def)
  show ?thesis
    using walkBinary_nil_ne [OF n(1), where E = example_extern and b = True and s = "''bob''"
        and x = "StringValue ''bob''" and v = "''==''"]
      walkBinary_nil_ne [OF n(2), where E = example_extern and b = True and s = "''bob''"
        and x = "StringValue ''bob''" and v = "''==''"]
      n(3)
    by simp
qed

text \<open>
  C4 as stated fails twice. \<open>nil != nil\<close> is \<open>Bool(true)\<close>, as \<open>nil == nil\<close> is: with
  nil on the left the \<open>!=\<close> branch returns true without looking at the right operand.
  And with an Int on the left and nil on the right neither operator returns a Bool: the
  expression is an unsupported binary expression.
\<close>

theorem nil_ne_nil_is_true:
  "Eval example_extern (row_of [(''a'', NilValue), (''b'', NilValue)])
      (BinaryNode \<lparr>tok_T = TokenNE, tok_V = ''!=''\<rparr> (IdentityNode ''a'' None) (IdentityNode ''b'' None))
     = Ret (BoolValue True, None)
   \<and> walkBinary example_extern \<lparr>tok_T = TokenNE, tok_V = ''!=''\<rparr> (NilValue, None) (NilValue, None)
     = Ret (BoolValue True, None)
   \<and> walkBinary example_extern \<lparr>tok_T = TokenEqualEqual, tok_V = ''==''\<rparr> (NilValue, None) (NilValue, None)
     = Ret (BoolValue True, None)
   \<and> \<not> ne_negates_eq example_extern NilValue NilValue
   \<and> walkBinary example_extern \<lparr>tok_T = TokenNE, tok_V = ''!=''\<rparr> (IntValue 1, None) (NilValue, None)
     = Ret (GoNil, Some ErrUnsupportedBinary)
   \<and> \<not> ne_negates_eq example_extern (IntValue 1) NilValue"
  by (simp add: ne_negates_eq_def walkBinary_def is_nil_case_def binary_nil_left_def
        walkIdentity_def row_of_def flag_def)

text \<open>
  C5. For two Int operands, \<open>operateInts\<close> returns the Bool of the comparison for
  \<open>==\<close>, \<open>!=\<close>, \<open><\<close>, \<open><=\<close>, \<open>>\<close> and \<open>>=\<close>. Its switch has no case
  for the single-equals token \<open>TokenEqual\<close> (the tables for Numbers and Strings list
  it beside \<open>TokenEqualEqual\<close>), so \<open>=\<close> on two Ints reaches the final
  \<open>panic\<close> instead of returning the Bool of their equality.
\<close>

theorem operateInts_comparisons:
  "operateInts \<lparr>tok_T = TokenEqual, tok_V = v\<rparr> a b =
     Panic (PanicError (ErrUnknownOperator TokenEqual))
   \<and> operateInts \<lparr>tok_T = TokenEqualEqual, tok_V = v\<rparr> a b = Ret (BoolValue (a = b))
   \<and> operateInts \<lparr>tok_T = TokenNE, tok_V = v\<rparr> a b = Ret (BoolValue (a \<noteq> b))
   \<and> operateInts \<lparr>tok_T = TokenLT, tok_V = v\<rparr> a b = Ret (BoolValue (sint a < sint b))
   \<and> operateInts \<lparr>tok_T = TokenLE, tok_V = v\<rparr> a b = Ret (BoolValue (sint a \<le> sint b))
   \<and> operateInts \<lparr>tok_T = TokenGT, tok_V = v\<rparr> a b = Ret (BoolValue (sint b < sint a))
   \<and> operateInts \<lparr>tok_T = TokenGE, tok_V = v\<rparr> a b = Ret (BoolValue (sint b \<le> sint a))"
  by (simp add: operateInts_def int64_less_def int64_le_def)

theorem operateInts_comparisons_witness:
  "operateInts \<lparr>tok_T = TokenEqual, tok_V = ''=''\<rparr> 1 1 =
     Panic (PanicError (ErrUnknownOperator TokenEqual))
   \<and> operateInts \<lparr>tok_T = TokenEqualEqual, tok_V = ''=''\<rparr> 1 1 = Ret (BoolValue True)"
  using operateInts_comparisons [of "''=''" 1 1] by simp

text \<open>
  C6 as amended. Every Int of magnitude at most \<open>2^53\<close> converts to \<open>float64\<close>
  exactly. For Ints \<open>a\<close> and \<open>b\<close> that convert exactly, both tables return and the
  Int result converted to \<open>float64\<close> equals the Number result: for \<open>+\<close>, \<open>-\<close>
  and \<open>*\<close> when the Int operation does not overflow, for \<open>%\<close> when \<open>b\<close> is
  not zero, and for \<open>/\<close> when \<open>b\<close> is not zero and divides \<open>a\<close> and the
  quotient does not overflow. For \<open>a\<close> and \<open>b\<close> of magnitude at most \<open>2^53\<close>
  and \<open>b\<close> not zero, the two tables agree on \<open>/\<close> exactly when \<open>b\<close> divides
  \<open>a\<close>.
\<close>

theorem ints_numbers_agree_exact:
  "(\<bar>sint a\<bar> \<le> 2 ^ 53 \<longrightarrow> exact_float64 a)
   \<and> (exact_float64 a \<and> exact_float64 b \<longrightarrow>
        (fits_int64 (sint a + sint b) \<longrightarrow>
           ints_numbers_agree oor \<lparr>tok_T = TokenPlus, tok_V = v\<rparr> a b)
      \<and> (fits_int64 (sint a - sint b) \<longrightarrow>
           ints_numbers_agree oor \<lparr>tok_T = TokenMinus, tok_V = v\<rparr> a b)
      \<and> (fits_int64 (sint a * sint b) \<longrightarrow>
           ints_numbers_agree oor \<lparr>tok_T = TokenStar, tok_V = v\<rparr> a b
           \<and> ints_numbers_agree oor \<lparr>tok_T = TokenMultiply, tok_V = v\<rparr> a b)
      \<and> (b \<noteq> 0 \<longrightarrow> ints_numbers_agree oor \<lparr>tok_T = TokenModulus, tok_V = v\<rparr> a b)
      \<and> (b \<noteq> 0 \<and> sint b dvd sint a \<and> fits_int64 (sint a div sint b) \<longrightarrow>
           ints_numbers_agree oor \<lparr>tok_T = TokenDivide, tok_V = v\<rparr> a b))
   \<and> (\<bar>sint a\<bar> \<le> 2 ^ 53 \<and> \<bar>sint b\<bar> \<le> 2 ^ 53 \<and> b \<noteq> 0 \<longrightarrow>
        (ints_numbers_agree oor \<lparr>tok_T = TokenDivide, tok_V = v\<rparr> a b
           \<longleftrightarrow> sint b dvd sint a))"
proof -
  have small: "exact_float64 i" if "\<bar>sint i\<bar> \<le> 2 ^ 53" for i :: int64
    using that unfolding exact_float64_def by (rule float64_of_int64_exact)
  have plus: "ints_numbers_agree oor \<lparr>tok_T = TokenPlus, tok_V = v\<rparr> a b"
    if fa: "float64_of_int64 a = Fin (of_int (sint a))"
      and fb: "float64_of_int64 b = Fin (of_int (sint b))"
      and s: "fits_int64 (sint a + sint b)"
  proof -
    have w: "a + b = word_of_int (sint a + sint b)" by simp
    have "float64_of_int64 (a + b) = fadd (Fin (of_int (sint a))) (Fin (of_int (sint b)))"
      unfolding w fadd_round using s by (rule float64_of_int64_fits)
    then show ?thesis
      using feq_float64_refl [of "a + b"]
      by (simp add: ints_numbers_agree_def operateInts_def operateNumbers_def is_arith_def
            math_IsNaN_def fa fb del: of_int_sint)
  qed
  have minus: "ints_numbers_agree oor \<lparr>tok_T = TokenMinus, tok_V = v\<rparr> a b"
    if fa: "float64_of_int64 a = Fin (of_int (sint a))"
      and fb: "float64_of_int64 b = Fin (of_int (sint b))"
      and s: "fits_int64 (sint a - sint b)"
  proof -
    have w: "a - b = word_of_int (sint a - sint b)" by simp
    have "float64_of_int64 (a - b) = fsub (Fin (of_int (sint a))) (Fin (of_int (sint b)))"
      unfolding w fsub_round using s by (rule float64_of_int64_fits)
    then show ?thesis
      using feq_float64_refl [of "a - b"]
      by (simp add: ints_numbers_agree_def operateInts_def operateNumbers_def is_arith_def
            math_IsNaN_def fa fb del: of_int_sint)
  qed
  have times: "ints_numbers_agree oor \<lparr>tok_T = TokenStar, tok_V = v\<rparr> a b
               \<and> ints_numbers_agree oor \<lparr>tok_T = TokenMultiply, tok_V = v\<rparr> a b"
    if fa: "float64_of_int64 a = Fin (of_int (sint a))"
      and fb: "float64_of_int64 b = Fin (of_int (sint b))"
      and s: "fits_int64 (sint a * sint b)"
  proof -
    have w: "a * b = word_of_int (sint a * sint b)" by simp
    have "float64_of_int64 (a * b)
            = (if sint a * sint b = 0 then Fin 0 else round64 (of_int (sint a * sint b)))"
      unfolding w using s by (rule float64_of_int64_fits)
    then have "feq (float64_of_int64 (a * b)) (fmul (Fin (of_int (sint a))) (Fin (of_int (sint b))))"
      using fmul_round [of "sint a" "sint b"] by (simp only:)
    then show ?thesis
      by (simp add: ints_numbers_agree_def operateInts_def operateNumbers_def is_arith_def
            math_IsNaN_def fa fb del: of_int_sint)
  qed
  have modulus: "ints_numbers_agree oor \<lparr>tok_T = TokenModulus, tok_V = v\<rparr> a b"
    if fa: "float64_of_int64 a = Fin (of_int (sint a))"
      and fb: "float64_of_int64 b = Fin (of_int (sint b))"
      and nz: "b \<noteq> 0"
    using nz feq_float64_refl [of "int64_rem a b"]
    by (simp add: ints_numbers_agree_def operateInts_def operateNumbers_def is_arith_def
          math_IsNaN_def fa fb int64_of_float64_of_int Let_def del: of_int_sint)
  have divide: "ints_numbers_agree oor \<lparr>tok_T = TokenDivide, tok_V = v\<rparr> a b"
    if fa: "float64_of_int64 a = Fin (of_int (sint a))"
      and fb: "float64_of_int64 b = Fin (of_int (sint b))"
      and nz: "b \<noteq> 0" and d: "sint b dvd sint a" and s: "fits_int64 (sint a div sint b)"
  proof -
    have sb: "sint b \<noteq> 0" using nz by (simp add: signed_eq_0_iff)
    have sd: "sint a sdiv sint b = sint a div sint b"
      using d by (simp add: signed_divide_int_eq_divide_int)
    have "float64_of_int64 (int64_quo a b)
            = (if sint a div sint b = 0 then Fin 0 else round64 (of_int (sint a div sint b)))"
      unfolding int64_quo_def sd using s by (rule float64_of_int64_fits)
    then have "feq (float64_of_int64 (int64_quo a b))
                 (fdiv (Fin (of_int (sint a))) (Fin (of_int (sint b))))"
      using fdiv_round [OF sb d] by (simp only:)
    then show ?thesis
      using nz
      by (simp add: ints_numbers_agree_def operateInts_def operateNumbers_def is_arith_def
            math_IsNaN_def fa fb del: of_int_sint)
  qed
  have remainder: "\<not> ints_numbers_agree oor \<lparr>tok_T = TokenDivide, tok_V = v\<rparr> a b"
    if a: "\<bar>sint a\<bar> \<le> 2 ^ 53" and b: "\<bar>sint b\<bar> \<le> 2 ^ 53"
      and nz: "b \<noteq> 0" and nd: "\<not> sint b dvd sint a"
  proof -
    have fa: "float64_of_int64 a = Fin (of_int (sint a))"
      using a by (rule float64_of_int64_exact)
    have fb: "float64_of_int64 b = Fin (of_int (sint b))"
      using b by (rule float64_of_int64_exact)
    have sb: "sint b \<noteq> 0" using nz by (simp add: signed_eq_0_iff)
    have sa: "sint a \<noteq> 0" using nd by auto
    have "\<bar>sint a sdiv sint b\<bar> \<le> 2 ^ 53"
      using abs_sdiv_le [of "sint a" "sint b"] a by linarith
    moreover have "(2::int) ^ 53 < 2 ^ 63" by (rule power_strict_increasing) simp_all
    ultimately have q: "\<bar>sint a sdiv sint b\<bar> \<le> 2 ^ 53" and f: "fits_int64 (sint a sdiv sint b)"
      unfolding fits_int64_def by linarith+
    have sq: "sint (int64_quo a b) = sint a sdiv sint b"
      unfolding int64_quo_def using f by (rule sint_fits)
    have "float64_of_int64 (int64_quo a b) = Fin (of_int (sint a sdiv sint b))"
      using float64_of_int64_exact [of "int64_quo a b"] q by (simp only: sq)
    moreover have "fdiv (Fin (of_int (sint a))) (Fin (of_int (sint b)))
                     = round64 (of_int (sint a) / of_int (sint b))"
      using sa sb by (simp add: fdiv_def Let_def del: of_int_sint)
    ultimately show ?thesis
      using feq_round64_quotient [OF sa sb a b nd] nz
      by (simp add: ints_numbers_agree_def operateInts_def operateNumbers_def is_arith_def
            math_IsNaN_def fa fb del: of_int_sint)
  qed
  have iff: "ints_numbers_agree oor \<lparr>tok_T = TokenDivide, tok_V = v\<rparr> a b
               \<longleftrightarrow> sint b dvd sint a"
    if a: "\<bar>sint a\<bar> \<le> 2 ^ 53" and b: "\<bar>sint b\<bar> \<le> 2 ^ 53" and nz: "b \<noteq> 0"
  proof
    assume "ints_numbers_agree oor \<lparr>tok_T = TokenDivide, tok_V = v\<rparr> a b"
    then show "sint b dvd sint a" using remainder [OF a b nz] by blast
  next
    assume d: "sint b dvd sint a"
    have sb: "sint b \<noteq> 0" using nz by (simp add: signed_eq_0_iff)
    have "sint a sdiv sint b = sint a div sint b"
      using d by (simp add: signed_divide_int_eq_divide_int)
    then have "\<bar>sint a div sint b\<bar> \<le> 2 ^ 53"
      using abs_sdiv_le [of "sint a" "sint b"] a by linarith
    moreover have "(2::int) ^ 53 < 2 ^ 63" by (rule power_strict_increasing) simp_all
    ultimately have "fits_int64 (sint a div sint b)"
      unfolding fits_int64_def by linarith
    then show "ints_numbers_agree oor \<lparr>tok_T = TokenDivide, tok_V = v\<rparr> a b"
      using small [OF a] small [OF b] nz d divide unfolding exact_float64_def by blast
  qed
  show ?thesis
    using small plus minus times modulus divide iff unfolding exact_float64_def by blast
qed

theorem ints_numbers_agree_exact_witness:
  "ints_numbers_agree (conv_oor example_extern) \<lparr>tok_T = TokenPlus, tok_V = ''+''\<rparr> 6 2
   \<and> ints_numbers_agree (conv_oor example_extern) \<lparr>tok_T = TokenMinus, tok_V = ''-''\<rparr> 6 2
   \<and> ints_numbers_agree (conv_oor example_extern) \<lparr>tok_T = TokenStar, tok_V = ''*''\<rparr> 6 2
   \<and> ints_numbers_agree (conv_oor example_extern) \<lparr>tok_T = TokenMultiply, tok_V = ''*''\<rparr> 6 2
   \<and> ints_numbers_agree (conv_oor example_extern) \<lparr>tok_T = TokenModulus, tok_V = ''%''\<rparr> 6 2
   \<and> ints_numbers_agree (conv_oor example_extern) \<lparr>tok_T = TokenDivide, tok_V = ''/''\<rparr> 6 2
   \<and> ints_numbers_agree (conv_oor example_extern) \<lparr>tok_T = TokenPlus, tok_V = ''+''\<rparr>
         9007199254740992 9007199254740992
   \<and> \<not> ints_numbers_agree (conv_oor example_extern) \<lparr>tok_T = TokenDivide, tok_V = ''/''\<rparr> 9 2"
  using ints_numbers_agree_exact [of 2 2 "conv_oor example_extern" "''+''"]
    ints_numbers_agree_exact [of 6 2 "conv_oor example_extern" "''+''"]
    ints_numbers_agree_exact [of 6 2 "conv_oor example_extern" "''-''"]
    ints_numbers_agree_exact [of 6 2 "conv_oor example_extern" "''*''"]
    ints_numbers_agree_exact [of 6 2 "conv_oor example_extern" "''%''"]
    ints_numbers_agree_exact [of 6 2 "conv_oor example_extern" "''/''"]
    ints_numbers_agree_exact [of 9007199254740992 9007199254740992 "conv_oor example_extern" "''+''"]
    ints_numbers_agree_exact [of 9 2 "conv_oor example_extern" "''/''"]
  by (simp add: fits_int64_def)

text \<open>
  C6 as stated fails with no \<open>int64\<close> overflow in sight. \<open>7 / 2\<close> is the Int
  \<open>3\<close> and the Number \<open>3.5\<close>: integer division truncates. And \<open>(2^53 + 1) + 1\<close>
  is the Int \<open>2^53 + 2\<close>, but \<open>2^53 + 1\<close> converts to the float \<open>2^53\<close>, and adding
  \<open>1\<close> to that float gives \<open>2^53\<close> again.
\<close>

theorem ints_numbers_disagree:
  "operateInts \<lparr>tok_T = TokenDivide, tok_V = ''/''\<rparr> 7 2 = Ret (IntValue 3)
   \<and> operateNumbers (conv_oor example_extern) \<lparr>tok_T = TokenDivide, tok_V = ''/''\<rparr>
        (float64_of_int64 7) (float64_of_int64 2) = Ret (NumberValue (Fin (7 / 2)))
   \<and> \<not> ints_numbers_agree (conv_oor example_extern) \<lparr>tok_T = TokenDivide, tok_V = ''/''\<rparr> 7 2
   \<and> operateInts \<lparr>tok_T = TokenPlus, tok_V = ''+''\<rparr> 9007199254740993 1
        = Ret (IntValue 9007199254740994)
   \<and> operateNumbers (conv_oor example_extern) \<lparr>tok_T = TokenPlus, tok_V = ''+''\<rparr>
        (float64_of_int64 9007199254740993) (float64_of_int64 1)
        = Ret (NumberValue (Fin 9007199254740992))
   \<and> \<not> ints_numbers_agree (conv_oor example_extern) \<lparr>tok_T = TokenPlus, tok_V = ''+''\<rparr>
         9007199254740993 1"
proof -
  have f7: "float64_of_int64 7 = Fin 7" using float64_of_int64_exact [of 7] by simp
  have f2: "float64_of_int64 2 = Fin 2" using float64_of_int64_exact [of 2] by simp
  have f3: "float64_of_int64 3 = Fin 3" using float64_of_int64_exact [of 3] by simp
  have f1: "float64_of_int64 1 = Fin 1" using float64_of_int64_exact [of 1] by simp
  have q: "int64_quo 7 2 = 3" by (simp add: int64_quo_def signed_divide_int_def)
  have d: "fdiv (Fin 7) (Fin 2) = Fin (7 / 2)"
    by (simp add: fdiv_def round64_7_2)
  have big: "float64_of_int64 9007199254740993 = Fin 9007199254740992"
    by (simp add: float64_of_int64_def round64_tie)
  have even: "float64_of_int64 9007199254740994 = Fin 9007199254740994"
  proof -
    have "round64 9007199254740994 = Fin 9007199254740994"
    proof (rule round64_exact)
      show "(9007199254740994::rat) \<noteq> 0" by simp
      have "max (flog2 \<bar>9007199254740994\<bar>) (- 1022) = 53" by code_simp
      then show "\<bar>9007199254740994 :: rat\<bar>
          = of_int 4503599627370497 * 2 powi (max (flog2 \<bar>9007199254740994\<bar>) (- 1022) - 52)"
        by simp
      have "(9007199254740994 :: rat) \<le> 2 ^ 54" by simp
      also have "\<dots> < 2 ^ 1024" by (rule power_strict_increasing) simp_all
      finally show "\<bar>9007199254740994 :: rat\<bar> < 2 powi 1024"
        by (simp only: power_int_numeral)
    qed
    then show ?thesis by (simp add: float64_of_int64_def)
  qed
  have s: "fadd (Fin 9007199254740992) (Fin 1) = Fin 9007199254740992"
    by (simp add: fadd_def round64_tie)
  show ?thesis
    by (simp add: ints_numbers_agree_def operateInts_def operateNumbers_def is_arith_def
          math_IsNaN_def f7 f2 f3 f1 q d big even s)
qed

text \<open>
  C7. With the \<open>LIKE\<close> operator \<open>operateStrings\<close> returns the Bool of the match
  whatever error the matcher reports: the error value built for an invalid pattern is
  never returned. So an invalid pattern gives \<open>Bool\<close> (false when the matcher reports
  no match), not a value of kind Error.
\<close>

theorem operateStrings_like_drops_error:
  "operateStrings g \<lparr>tok_T = TokenLike, tok_V = v\<rparr> a b = BoolValue (fst (g b a))"
  by (simp add: operateStrings_def split: prod.splits)

theorem operateStrings_like_drops_error_witness:
  "glob_Match example_extern ''['' ''abc'' = (False, Some (ErrExternal ''syntax error in pattern''))
   \<and> operateStrings (glob_Match example_extern) \<lparr>tok_T = TokenLike, tok_V = ''LIKE''\<rparr>
         ''abc'' ''['' = BoolValue False"
  using operateStrings_like_drops_error [of "glob_Match example_extern" "''LIKE''" "''abc''" "''[''"]
  by (simp add: example_extern_def)



text \<open>
  C9. With \<open>TablesToLoad = ["users"]\<close>, \<open>AddTableName("Users")\<close> leaves the source
  schema as it was, although \<open>Users\<close> and \<open>users\<close> have the same lowered form;
  \<open>AddTableName("users")\<close> adds the table. A name is admitted only when it is written
  exactly as the lowered entry, not in any case.
\<close>

theorem AddTableName_case_sensitive:
  "SourceSchema_AddTableName ascii_ToLower users_only ''Users'' = Ret users_only
   \<and> ascii_ToLower ''Users'' = ascii_ToLower ''users''
   \<and> (\<exists>m'. SourceSchema_AddTableName ascii_ToLower users_only ''users'' = Ret m'
            \<and> ss_tableNames m' = [''users''])"
  by (simp add: SourceSchema_AddTableName_def users_only_def ascii_ToLower_def sort_Strings_def)

text \<open>
  C10 as amended. For Number operands of which neither is NaN, \<open>%\<close> converts both to
  \<open>int64\<close> (the fraction is discarded), panics with the run-time error "integer divide by
  zero" when the converted divisor is zero, and otherwise returns the integer remainder
  converted back to a Number. When either operand is NaN it returns NaN.
\<close>

theorem operateNumbers_modulus:
  "operateNumbers oor \<lparr>tok_T = TokenModulus, tok_V = v\<rparr> a b =
   (if math_IsNaN a \<or> math_IsNaN b then Ret (NumberValue NaN)
    else if int64_of_float64 oor b = 0 then Panic (RuntimePanic IntegerDivideByZero)
    else Ret (NumberValue (float64_of_int64
                (int64_rem (int64_of_float64 oor a) (int64_of_float64 oor b)))))"
  by (simp add: operateNumbers_def is_arith_def Let_def)

theorem operateNumbers_modulus_witness:
  "operateNumbers (conv_oor example_extern) \<lparr>tok_T = TokenModulus, tok_V = ''%''\<rparr>
      (Fin (15 / 2)) (Fin 2) = Ret (NumberValue (Fin 1))
   \<and> operateNumbers (conv_oor example_extern) \<lparr>tok_T = TokenModulus, tok_V = ''%''\<rparr>
      (Fin (15 / 2)) (Fin (1 / 2)) = Panic (RuntimePanic IntegerDivideByZero)
   \<and> operateNumbers (conv_oor example_extern) \<lparr>tok_T = TokenModulus, tok_V = ''%''\<rparr>
      NaN (Fin 2) = Ret (NumberValue NaN)"
proof -
  have b: "int64_of_float64 oor (Fin 2) = 2" for oor
    by (simp add: int64_of_float64_def)
  have r: "int64_rem 7 2 = 1"
    by (simp add: int64_rem_def signed_modulo_int_def)
  show ?thesis
    using operateNumbers_modulus [of "conv_oor example_extern" "''%''" "Fin (15 / 2)" "Fin 2"]
      operateNumbers_modulus [of "conv_oor example_extern" "''%''" "Fin (15 / 2)" "Fin (1 / 2)"]
      operateNumbers_modulus [of "conv_oor example_extern" "''%''" NaN "Fin 2"]
    by (simp add: math_IsNaN_def int64_of_float64_15_2 int64_of_float64_1_2 b r
          float64_of_int64_1)
qed

text \<open>
  C10 as stated fails at a NaN operand: \<open>NaN % 2\<close> is NaN, which is not the conversion
  of any \<open>int64\<close>.
\<close>

theorem operateNumbers_modulus_NaN:
  "operateNumbers (conv_oor example_extern) \<lparr>tok_T = TokenModulus, tok_V = ''%''\<rparr>
      NaN (Fin 2) = Ret (NumberValue NaN)
   \<and> operateNumbers (conv_oor example_extern) \<lparr>tok_T = TokenModulus, tok_V = ''%''\<rparr>
      NaN (Fin 2) \<noteq>
      Ret (NumberValue (float64_of_int64
             (int64_rem (int64_of_float64 (conv_oor example_extern) NaN)
                        (int64_of_float64 (conv_oor example_extern) (Fin 2)))))"
  by (simp add: operateNumbers_def is_arith_def math_IsNaN_def float64_of_int64_def
        round64_not_NaN [symmetric])

end
